theory Spec2Isabelle
  imports Complex_Main
begin

section \<open>JavaScript values\<close>

text \<open>
  The backend is JavaScript: the resume returned by the parser, the verdict returned by the
  scorer and the body of every HTTP response are plain objects whose properties are read by
  name. They are modelled by \<open>jsval\<close>. An object is the list of its own properties in
  enumeration order, each name bound once. A number is a rational or one of the three
  non-finite values; the rounding of IEEE doubles is not modelled. A string is a list of
  characters with codes below 256.
\<close>

datatype jsnum = Fin rat | NaN | PosInf | NegInf

datatype jsval =
    JUndefined
  | JNull
  | JBool bool
  | JNum jsnum
  | JStr string
  | JArr "jsval list"
  | JObj "(string \<times> jsval) list"

type_synonym props = "(string \<times> jsval) list"

text \<open>
  A thrown value: an \<open>Error\<close> with its message, or an HTTP client error that also carries
  a \<open>response\<close> with a status and a status text.
\<close>

datatype error =
    Error string
  | TypeError string
  | ResponseError string nat string

fun message :: "error \<Rightarrow> string" where
  "message (Error m) = m"
| "message (TypeError m) = m"
| "message (ResponseError m _ _) = m"

text \<open>ToBoolean: what \<open>!v\<close>, \<open>v || w\<close> and \<open>if (v)\<close> test.\<close>

fun truthy :: "jsval \<Rightarrow> bool" where
  "truthy JUndefined = False"
| "truthy JNull = False"
| "truthy (JBool b) = b"
| "truthy (JNum (Fin r)) = (r \<noteq> 0)"
| "truthy (JNum NaN) = False"
| "truthy (JNum PosInf) = True"
| "truthy (JNum NegInf) = True"
| "truthy (JStr s) = (s \<noteq> [])"
| "truthy (JArr _) = True"
| "truthy (JObj _) = True"

text \<open>\<open>a || b\<close> on values.\<close>

definition por :: "jsval \<Rightarrow> jsval \<Rightarrow> jsval" where
  "por a b = (if truthy a then a else b)"

text \<open>
  \<open>get v k\<close> is the property read \<open>v.k\<close> on a value that is neither \<open>null\<close> nor
  \<open>undefined\<close>, for the property names this program reads: none of them is defined on a
  prototype, so only an object's own properties answer.
\<close>

fun get :: "jsval \<Rightarrow> string \<Rightarrow> jsval" where
  "get (JObj kvs) k = (case map_of kvs k of None \<Rightarrow> JUndefined | Some v \<Rightarrow> v)"
| "get _ k = JUndefined"

text \<open>\<open>member v k\<close> is \<open>v.k\<close> in general: reading a property of \<open>null\<close> or \<open>undefined\<close> throws.\<close>

definition cannot_read :: "string \<Rightarrow> string \<Rightarrow> error" where
  "cannot_read what k =
     TypeError (''Cannot read properties of '' @ what @ '' (reading '' @ [CHR 0x27] @ k @ [CHR 0x27] @ '')'')"

fun member :: "jsval \<Rightarrow> string \<Rightarrow> error + jsval" where
  "member JUndefined k = Inl (cannot_read ''undefined'' k)"
| "member JNull k = Inl (cannot_read ''null'' k)"
| "member v k = Inr (get v k)"

text \<open>\<open>v?.k\<close>: optional chaining.\<close>

fun opt_member :: "jsval \<Rightarrow> string \<Rightarrow> jsval" where
  "opt_member JUndefined k = JUndefined"
| "opt_member JNull k = JUndefined"
| "opt_member v k = get v k"

fun isArray :: "jsval \<Rightarrow> bool" where
  "isArray (JArr _) = True"
| "isArray _ = False"

section \<open>Strings\<close>

text \<open>\<open>String.prototype.toLowerCase\<close> on characters with codes below 256.\<close>

definition toLowerChar :: "char \<Rightarrow> char" where
  "toLowerChar c = (let n = of_char c :: nat in
     if (65 \<le> n \<and> n \<le> 90) \<or> (192 \<le> n \<and> n \<le> 222 \<and> n \<noteq> 215)
     then char_of (n + 32) else c)"

definition toLowerCase :: "string \<Rightarrow> string" where
  "toLowerCase s = map toLowerChar s"

text \<open>
  \<open>String.prototype.startsWith\<close> and \<open>String.prototype.includes\<close>: \<open>p\<close> occurs in
  \<open>s\<close> as a contiguous run.
\<close>

fun startsWith :: "string \<Rightarrow> string \<Rightarrow> bool" where
  "startsWith s [] = True"
| "startsWith [] (p # ps) = False"
| "startsWith (c # cs) (p # ps) = (c = p \<and> startsWith cs ps)"

fun str_includes :: "string \<Rightarrow> string \<Rightarrow> bool" where
  "str_includes [] p = (p = [])"
| "str_includes (c # cs) p = (startsWith (c # cs) p \<or> str_includes cs p)"

section \<open>JSON.stringify\<close>

text \<open>
  The platform functions that are not part of the repository and are not modelled here are
  parameters of the model: how a finite number prints, \<open>JSON.parse\<close> (\<open>None\<close> when it throws
  a SyntaxError), \<open>parseInt(v, 10)\<close>, \<open>parseFloat(v)\<close>, and the number a string, an array
  or an object converts to.
\<close>

record runtime =
  Number_toString :: "rat \<Rightarrow> string"
  JSON_parse :: "string \<Rightarrow> jsval option"
  parseInt10 :: "jsval \<Rightarrow> jsnum"
  parseFloat :: "jsval \<Rightarrow> jsnum"
  StringToNumber :: "jsval \<Rightarrow> jsnum"

definition hexDigit :: "nat \<Rightarrow> char" where
  "hexDigit n = ''0123456789abcdef'' ! (n mod 16)"

definition quoteChar :: "char \<Rightarrow> string" where
  "quoteChar c = (let n = of_char c :: nat in
     if n = 0x22 then [CHR 0x5C, CHR 0x22]
     else if n = 0x5C then [CHR 0x5C, CHR 0x5C]
     else if n = 0x08 then [CHR 0x5C, CHR ''b'']
     else if n = 0x0C then [CHR 0x5C, CHR ''f'']
     else if n = 0x0A then [CHR 0x5C, CHR ''n'']
     else if n = 0x0D then [CHR 0x5C, CHR ''r'']
     else if n = 0x09 then [CHR 0x5C, CHR ''t'']
     else if n < 0x20 then [CHR 0x5C, CHR ''u'', CHR ''0'', CHR ''0'', hexDigit (n div 16), hexDigit n]
     else [c])"

definition quoteJSON :: "string \<Rightarrow> string" where
  "quoteJSON s = [CHR 0x22] @ concat (map quoteChar s) @ [CHR 0x22]"

fun join :: "string \<Rightarrow> string list \<Rightarrow> string" where
  "join sep [] = []"
| "join sep [x] = x"
| "join sep (x # y # ys) = x @ sep @ join sep (y # ys)"

text \<open>
  \<open>JSON.stringify(v)\<close>; \<open>None\<close> is the result \<open>undefined\<close>. In an array an
  \<open>undefined\<close> element prints as \<open>null\<close>; in an object a property whose value is
  \<open>undefined\<close> is left out.
\<close>

primrec JSON_stringify :: "runtime \<Rightarrow> jsval \<Rightarrow> string option" where
  "JSON_stringify rt JUndefined = None"
| "JSON_stringify rt JNull = Some ''null''"
| "JSON_stringify rt (JBool b) = Some (if b then ''true'' else ''false'')"
| "JSON_stringify rt (JNum n) =
     Some (case n of Fin r \<Rightarrow> Number_toString rt r | _ \<Rightarrow> ''null'')"
| "JSON_stringify rt (JStr s) = Some (quoteJSON s)"
| "JSON_stringify rt (JArr xs) =
     Some (''['' @ join '','' (map (\<lambda>r. case r of None \<Rightarrow> ''null'' | Some s \<Rightarrow> s)
                                  (map (JSON_stringify rt) xs)) @ '']'')"
| "JSON_stringify rt (JObj kvs) =
     Some (''{'' @ join '','' (concat (map (\<lambda>(k, r). case r of None \<Rightarrow> []
                                                 | Some s \<Rightarrow> [quoteJSON k @ '':'' @ s])
                                  (map (map_prod id (JSON_stringify rt)) kvs))) @ ''}'')"

section \<open>The fallback scorer\<close>

definition commonSkills :: "string list" where
  "commonSkills =
     [''javascript'', ''python'', ''java'', ''react'', ''node.js'', ''sql'', ''aws'',
      ''docker'', ''kubernetes'', ''git'', ''agile'', ''rest api'', ''mongodb'']"

text \<open>
  \<open>Math.round\<close>: the nearest integer, a half going up. The scorer rounds 100 times a
  quotient of two counts of at most 13; on these the computation in doubles gives the
  integer that the exact one gives.
\<close>

definition Math_round :: "rat \<Rightarrow> int" where
  "Math_round x = \<lfloor>x + 1 / 2\<rfloor>"

definition num :: "rat \<Rightarrow> jsval" where
  "num r = JNum (Fin r)"

text \<open>
  \<open>generateFallbackScore(parsedResume, jobDescription)\<close>. \<open>JSON.stringify\<close> of
  \<open>undefined\<close> is \<open>undefined\<close>, on which \<open>.toLowerCase()\<close> throws.
\<close>

definition generateFallbackScore :: "runtime \<Rightarrow> jsval \<Rightarrow> string \<Rightarrow> error + jsval" where
  "generateFallbackScore rt parsedResume jobDescription =
     (case JSON_stringify rt parsedResume of
        None \<Rightarrow> Inl (cannot_read ''undefined'' ''toLowerCase'')
      | Some json \<Rightarrow>
          (let resumeText = toLowerCase json;
               jobText = toLowerCase jobDescription;
               foundSkills = filter (\<lambda>skill. str_includes resumeText skill \<and> str_includes jobText skill)
                               commonSkills;
               missingSkills = filter (\<lambda>skill. str_includes jobText skill \<and> \<not> str_includes resumeText skill)
                               commonSkills;
               matchScore = min 100 (Math_round
                 (of_nat (length foundSkills)
                    / of_nat (max (length (filter (\<lambda>s. str_includes jobText s) commonSkills)) 1) * 100))
           in Inr (JObj
             [(''match_score'', num (of_int matchScore)),
              (''shortlist_probability'', num (of_int matchScore / 100)),
              (''salary_range'', JObj [(''min'', num 60000), (''max'', num 100000)]),
              (''missing_skills'', JArr (map JStr (take 5 missingSkills))),
              (''strong_skills'', JArr (map JStr (take 5 foundSkills))),
              (''recommendation'', JStr ''Fallback scoring used - manual review recommended''),
              (''key_highlights'', JArr [JStr ''Automated scoring unavailable'']),
              (''areas_of_concern'', JArr [JStr ''LLM scoring service unavailable''])])))"

section \<open>Parsing the reply of the language model\<close>

text \<open>JavaScript white space among the characters with codes below 256.\<close>

definition isSpace :: "char \<Rightarrow> bool" where
  "isSpace c = (of_char c \<in> {9, 10, 11, 12, 13, 32, 160 :: nat})"

definition trim :: "string \<Rightarrow> string" where
  "trim s = rev (dropWhile isSpace (rev (dropWhile isSpace s)))"

definition dropNewline :: "string \<Rightarrow> string" where
  "dropNewline s = (case s of [] \<Rightarrow> [] | c # cs \<Rightarrow> if c = CHR 0x0A then cs else s)"

text \<open>
  \<open>s.replace(/pat\n?/g, '')\<close> for a literal, non-empty \<open>pat\<close>: every occurrence, found
  from the left, goes together with one line feed that follows it.
\<close>

function removeAll :: "string \<Rightarrow> string \<Rightarrow> string" where
  "removeAll pat [] = []"
| "removeAll pat (c # cs) =
     (if pat \<noteq> [] \<and> take (length pat) (c # cs) = pat
      then removeAll pat (dropNewline (drop (length pat) (c # cs)))
      else c # removeAll pat cs)"
  by pat_completeness auto
termination
proof (relation "measure (\<lambda>(pat, s). length s)")
  fix pat :: string and c :: char and cs :: string
  assume "pat \<noteq> [] \<and> take (length pat) (c # cs) = pat"
  then have "length (drop (length pat) (c # cs)) \<le> length cs"
    by (cases pat) simp_all
  moreover have "length (dropNewline s) \<le> length s" for s
    by (simp add: dropNewline_def split: list.splits)
  ultimately have "length (dropNewline (drop (length pat) (c # cs))) \<le> length cs"
    by (rule order_trans [rotated])
  then show "((pat, dropNewline (drop (length pat) (c # cs))), pat, c # cs)
               \<in> measure (\<lambda>(pat, s). length s)"
    by simp
qed simp_all

definition fence :: string where
  "fence = [CHR 0x60, CHR 0x60, CHR 0x60]"

text \<open>
  \<open>s.match(/\{[\s\S]*\}/)\<close>: from the first opening brace to the last closing brace after
  it; \<open>None\<close> when there is no such span.
\<close>

definition matchBraces :: "string \<Rightarrow> string option" where
  "matchBraces s =
     (let t = dropWhile (\<lambda>c. c \<noteq> CHR 0x7B) s in
      if t = [] then None
      else (let u = rev (dropWhile (\<lambda>c. c \<noteq> CHR 0x7D) (rev (tl t))) in
            if u = [] then None else Some (CHR 0x7B # u)))"

text \<open>Lines 129 to 136 of the scoring service: the text handed to \<open>JSON.parse\<close>.\<close>

definition extractJSON :: "string \<Rightarrow> string option" where
  "extractJSON responseText =
     matchBraces (removeAll fence (removeAll (fence @ ''json'') (trim responseText)))"

text \<open>\<open>n || 0\<close> on a number.\<close>

definition numOr0 :: "jsnum \<Rightarrow> jsval" where
  "numOr0 n = por (JNum n) (JNum (Fin 0))"

definition arrayOrEmpty :: "jsval \<Rightarrow> jsval" where
  "arrayOrEmpty v = (if isArray v then v else JArr [])"

definition invalidFormat :: error where
  "invalidFormat = Error ''Invalid Gemini response format''"

text \<open>
  \<open>parseGeminiResponse(responseText)\<close>: whatever is thrown inside is caught and replaced by
  one error.
\<close>

definition parseGeminiResponse :: "runtime \<Rightarrow> string \<Rightarrow> error + jsval" where
  "parseGeminiResponse rt responseText =
     (if responseText = [] then Inl invalidFormat
      else case extractJSON responseText of
        None \<Rightarrow> Inl invalidFormat
      | Some jsonMatch \<Rightarrow>
         (case JSON_parse rt jsonMatch of
            None \<Rightarrow> Inl invalidFormat
          | Some parsed \<Rightarrow>
             (case member parsed ''match_score'' of
                Inl e \<Rightarrow> Inl invalidFormat
              | Inr match_score \<Rightarrow> Inr (JObj
                 [(''match_score'', numOr0 (parseInt10 rt match_score)),
                  (''shortlist_probability'',
                     numOr0 (parseFloat rt (get parsed ''shortlist_probability''))),
                  (''salary_range'', JObj
                     [(''min'', numOr0 (parseInt10 rt (opt_member (get parsed ''salary_range'') ''min''))),
                      (''max'', numOr0 (parseInt10 rt (opt_member (get parsed ''salary_range'') ''max'')))]),
                  (''missing_skills'', arrayOrEmpty (get parsed ''missing_skills'')),
                  (''strong_skills'', arrayOrEmpty (get parsed ''strong_skills'')),
                  (''recommendation'', por (get parsed ''recommendation'') (JStr [])),
                  (''key_highlights'', arrayOrEmpty (get parsed ''key_highlights'')),
                  (''areas_of_concern'', arrayOrEmpty (get parsed ''areas_of_concern''))]))))"

section \<open>The outside world\<close>

text \<open>
  What the database client answers: the row, or an error object with its code and
  message. Code \<open>PGRST116\<close> says that no row matched. A call that rejects behaves as an
  error whose code is not \<open>PGRST116\<close>.
\<close>

datatype 'a reply = Data 'a | Failure string string

text \<open>A row of the \<open>jobs\<close> table, with the columns the controller reads.\<close>

record job =
  job_id :: string
  title :: string
  description :: string
  status :: "string option"
  hr_email :: string
  hr_name :: "string option"
  company_name :: "string option"

text \<open>
  One run of the submission pipeline calls each external service at most once, so the
  world of a run is the outcome each of them has: the environment variables, the reply of
  the language model (building the client and the prompt, the call and reading its text:
  an exception or the text), the two database reads, the upload, the HTTP call to the
  parser (an exception or \<open>response.data\<close>), the database writes, the two hand-overs to the
  mail relay (rendering the message and sending it) and the clock. Deleting the local file
  may fail too, but its outcome is only logged.
\<close>

record world =
  GEMINI_API_KEY :: "string option"
  LLM_API_KEY :: "string option"
  PARSER_API_KEY :: "string option"
  PARSER_ENDPOINT :: "string option"
  gemini :: "error + string"
  jobs_single :: "job reply"
  resumes_single :: "props reply"
  cloudinary_upload :: "error + props"
  axios_get :: "error + jsval"
  resumes_insert :: "props reply"
  ats_scores_insert :: "props reply"
  ats_scores_update :: "props reply"
  sendMail_hr :: "error + props"
  sendMail_candidate :: "error + props"
  now :: string

text \<open>An environment variable is set when it is present and not empty.\<close>

definition isSet :: "string option \<Rightarrow> bool" where
  "isSet v = (case v of None \<Rightarrow> False | Some s \<Rightarrow> s \<noteq> [])"

section \<open>The scoring gateway\<close>

text \<open>\<open>calculateATSScore(parsedResume, jobDescription)\<close>.\<close>

definition calculateATSScore :: "runtime \<Rightarrow> world \<Rightarrow> jsval \<Rightarrow> string \<Rightarrow> error + jsval" where
  "calculateATSScore rt w parsedResume jobDescription =
     (case (if \<not> (isSet (GEMINI_API_KEY w) \<or> isSet (LLM_API_KEY w))
            then Inl (Error ''GEMINI_API_KEY must be configured in environment variables'')
            else case gemini w of
                   Inl e \<Rightarrow> Inl e
                 | Inr text \<Rightarrow> parseGeminiResponse rt text) of
        Inr parsedResult \<Rightarrow> Inr parsedResult
      | Inl error \<Rightarrow> generateFallbackScore rt parsedResume jobDescription)"

section \<open>The resume parser gateway\<close>

text \<open>Decimal digits of a natural number, as a template literal prints it.\<close>

function showNat :: "nat \<Rightarrow> string" where
  "showNat n = (if n < 10 then [char_of (48 + n)] else showNat (n div 10) @ [char_of (48 + n mod 10)])"
  by pat_completeness auto
termination
  by (relation "measure (\<lambda>n. n)") auto

text \<open>\<open>xs.map(f)\<close> where \<open>f\<close> may throw: the first exception ends the loop.\<close>

fun mapE :: "('a \<Rightarrow> error + 'b) \<Rightarrow> 'a list \<Rightarrow> error + 'b list" where
  "mapE f [] = Inr []"
| "mapE f (x # xs) =
     (case f x of
        Inl e \<Rightarrow> Inl e
      | Inr y \<Rightarrow> (case mapE f xs of Inl e \<Rightarrow> Inl e | Inr ys \<Rightarrow> Inr (y # ys)))"

fun elements :: "jsval \<Rightarrow> jsval list" where
  "elements (JArr xs) = xs"
| "elements _ = []"

definition normalizeExperience :: "jsval \<Rightarrow> error + jsval" where
  "normalizeExperience expEntry =
     (case member expEntry ''title'' of
        Inl e \<Rightarrow> Inl e
      | Inr t \<Rightarrow> Inr (JObj
         [(''title'', por (por t (get expEntry ''position'')) (JStr [])),
          (''company'', por (por (get expEntry ''company'') (get expEntry ''organization'')) (JStr [])),
          (''location'', por (get expEntry ''location'') (JStr [])),
          (''startDate'', por (por (get expEntry ''start_date'') (get expEntry ''from'')) (JStr [])),
          (''endDate'', por (por (get expEntry ''end_date'') (get expEntry ''to'')) (JStr [])),
          (''description'', por (por (get expEntry ''description'') (get expEntry ''responsibilities'')) (JStr [])),
          (''duration'', por (get expEntry ''duration'') (JStr []))]))"

definition normalizeEducation :: "jsval \<Rightarrow> error + jsval" where
  "normalizeEducation edu =
     (case member edu ''degree'' of
        Inl e \<Rightarrow> Inl e
      | Inr d \<Rightarrow> Inr (JObj
         [(''degree'', por (por d (get edu ''qualification'')) (JStr [])),
          (''institution'',
             por (por (por (get edu ''institution'') (get edu ''school'')) (get edu ''university'')) (JStr [])),
          (''location'', por (get edu ''location'') (JStr [])),
          (''graduationDate'', por (por (get edu ''graduation_date'') (get edu ''year'')) (JStr [])),
          (''gpa'', por (get edu ''gpa'') (JStr []))]))"

text \<open>\<open>normalizeParserResponse(data)\<close>; the object literal is evaluated from top to bottom.\<close>

definition normalizeParserResponse :: "jsval \<Rightarrow> error + jsval" where
  "normalizeParserResponse data =
     (case member data ''name'' of
        Inl e \<Rightarrow> Inl e
      | Inr name \<Rightarrow>
         (case (if isArray (get data ''experience'')
                then mapE normalizeExperience (elements (get data ''experience'')) else Inr []) of
            Inl e \<Rightarrow> Inl e
          | Inr experience \<Rightarrow>
             (case (if isArray (get data ''education'')
                    then mapE normalizeEducation (elements (get data ''education'')) else Inr []) of
                Inl e \<Rightarrow> Inl e
              | Inr education \<Rightarrow> Inr (JObj
                 [(''personalInfo'', JObj
                    [(''name'', por (por name (get data ''full_name'')) (JStr [])),
                     (''email'', por (get data ''email'') (JStr [])),
                     (''phone'', por (por (get data ''phone'') (get data ''phone_number'')) (JStr [])),
                     (''location'', por (por (get data ''location'') (get data ''address'')) (JStr [])),
                     (''linkedin'',
                        por (por (get data ''linkedin'') (opt_member (get data ''social_links'') ''linkedin''))
                            (JStr [])),
                     (''portfolio'', por (por (get data ''portfolio'') (get data ''website'')) (JStr []))]),
                  (''summary'', por (por (get data ''summary'') (get data ''objective'')) (JStr [])),
                  (''experience'', JArr experience),
                  (''education'', JArr education),
                  (''skills'', JObj
                    [(''technical'',
                        por (por (opt_member (get data ''skills'') ''technical'') (get data ''technical_skills''))
                            (JArr [])),
                     (''soft'',
                        por (por (opt_member (get data ''skills'') ''soft'') (get data ''soft_skills''))
                            (JArr [])),
                     (''all'', por (get data ''skills'') (JArr []))]),
                  (''certifications'', arrayOrEmpty (get data ''certifications'')),
                  (''languages'', arrayOrEmpty (get data ''languages'')),
                  (''totalExperience'',
                     por (por (get data ''total_experience'') (get data ''years_of_experience'')) (JStr [])),
                  (''rawData'', data)]))))"

text \<open>
  \<open>parseResume(resumeUrl)\<close>: the catch block rewraps whatever was thrown; an error that
  carries a \<open>response\<close> is reported by its status.
\<close>

definition parseResume :: "world \<Rightarrow> jsval \<Rightarrow> error + jsval" where
  "parseResume w resumeUrl =
     (case (if \<not> isSet (PARSER_API_KEY w) \<or> \<not> isSet (PARSER_ENDPOINT w)
            then Inl (Error ''PARSER_API_KEY and PARSER_ENDPOINT must be configured'')
            else case axios_get w of
                   Inl e \<Rightarrow> Inl e
                 | Inr data \<Rightarrow>
                     if \<not> truthy data then Inl (Error ''Empty response from parser API'')
                     else normalizeParserResponse data) of
        Inr parsedData \<Rightarrow> Inr parsedData
      | Inl (ResponseError m st txt) \<Rightarrow>
          Inl (Error (''Parser API error: '' @ showNat st @ '' - '' @ txt))
      | Inl error \<Rightarrow> Inl (Error (''Resume parsing failed: '' @ message error)))"

section \<open>Persistence operations\<close>

definition databaseFailed :: "string \<Rightarrow> error" where
  "databaseFailed m = Error (''Database operation failed: '' @ m)"

text \<open>\<open>getJobByJobId\<close> and \<open>getApplicationByUserAndJob\<close>: \<open>None\<close> is \<open>null\<close>.\<close>

definition single :: "'a reply \<Rightarrow> error + 'a option" where
  "single r =
     (case r of
        Data row \<Rightarrow> Inr (Some row)
      | Failure code m \<Rightarrow> if code = ''PGRST116'' then Inr None else Inl (databaseFailed m))"

definition getJobByJobId :: "world \<Rightarrow> string \<Rightarrow> error + job option" where
  "getJobByJobId w jobId = single (jobs_single w)"

definition getApplicationByUserAndJob :: "world \<Rightarrow> jsval \<Rightarrow> string \<Rightarrow> error + props option" where
  "getApplicationByUserAndJob w userId jobId = single (resumes_single w)"

text \<open>
  \<open>createResume\<close>, \<open>createATSScore\<close> and \<open>updateEmailSentStatus\<close>: any error is thrown.
  \<open>resumeRow\<close> and \<open>scoreRow\<close> are the rows they hand to the database for their
  argument; what the database answers is the world's.
\<close>

definition written :: "props reply \<Rightarrow> error + props" where
  "written r = (case r of Data row \<Rightarrow> Inr row | Failure code m \<Rightarrow> Inl (databaseFailed m))"

definition resumeRow :: "jsval \<Rightarrow> props" where
  "resumeRow resumeData =
     [(''job_id'', get resumeData ''jobId''),
      (''candidate_user_id'', get resumeData ''candidateUserId''),
      (''cloudinary_url'', get resumeData ''cloudinaryUrl''),
      (''parsed_data'', get resumeData ''parsedData'')]"

definition createResume :: "world \<Rightarrow> jsval \<Rightarrow> error + props" where
  "createResume w resumeData = written (resumes_insert w)"

definition scoreRow :: "jsval \<Rightarrow> props" where
  "scoreRow scoreData =
     [(''resume_id'', get scoreData ''resumeId''),
      (''job_id'', get scoreData ''jobId''),
      (''match_score'', get scoreData ''matchScore''),
      (''shortlist_probability'', get scoreData ''shortlistProbability''),
      (''salary_range'', get scoreData ''salaryRange''),
      (''missing_skills'', get scoreData ''missingSkills''),
      (''strong_skills'', get scoreData ''strongSkills''),
      (''recommendation'', get scoreData ''recommendation''),
      (''key_highlights'', get scoreData ''keyHighlights''),
      (''areas_of_concern'', get scoreData ''areasOfConcern''),
      (''email_sent'', por (get scoreData ''emailSent'') (JBool False))]"

definition createATSScore :: "world \<Rightarrow> jsval \<Rightarrow> error + props" where
  "createATSScore w scoreData = written (ats_scores_insert w)"

definition updateEmailSentStatus :: "world \<Rightarrow> jsval \<Rightarrow> bool \<Rightarrow> error + props" where
  "updateEmailSentStatus w scoreId emailSent = written (ats_scores_update w)"

section \<open>The notification dispatcher\<close>

text \<open>\<open>sendHRNotification(data)\<close>: the catch block throws again.\<close>

definition sendHRNotification :: "world \<Rightarrow> jsval \<Rightarrow> error + jsval" where
  "sendHRNotification w data =
     (case (case member data ''hrEmail'' of
              Inl e \<Rightarrow> Inl e
            | Inr hrEmail \<Rightarrow>
                if \<not> truthy hrEmail
                then Inr (JObj [(''sent'', JBool False), (''reason'', JStr ''HR email not provided'')])
                else case sendMail_hr w of
                       Inl e \<Rightarrow> Inl e
                     | Inr result \<Rightarrow>
                         Inr (JObj [(''sent'', JBool True), (''messageId'', get (JObj result) ''messageId'')])) of
        Inr r \<Rightarrow> Inr r
      | Inl error \<Rightarrow> Inl (Error (''Email notification failed: '' @ message error)))"

text \<open>\<open>sendCandidateConfirmation(candidateData)\<close>: the catch block returns.\<close>

definition sendCandidateConfirmation :: "world \<Rightarrow> jsval \<Rightarrow> error + jsval" where
  "sendCandidateConfirmation w candidateData =
     (case (case member candidateData ''candidateEmail'' of
              Inl e \<Rightarrow> Inl e
            | Inr candidateEmail \<Rightarrow>
                (let email = por candidateEmail (get candidateData ''email'') in
                 if \<not> truthy email
                 then Inr (JObj [(''sent'', JBool False), (''reason'', JStr ''No candidate email'')])
                 else case sendMail_candidate w of
                        Inl e \<Rightarrow> Inl e
                      | Inr result \<Rightarrow>
                          Inr (JObj [(''sent'', JBool True), (''messageId'', get (JObj result) ''messageId'')]))) of
        Inr r \<Rightarrow> Inr r
      | Inl error \<Rightarrow> Inr (JObj [(''sent'', JBool False), (''error'', JStr (message error))]))"

section \<open>The application orchestrator\<close>

text \<open>
  A run is observed through the calls the controller makes to its collaborators, in order,
  each with its argument, and through the HTTP response it sends.
\<close>

datatype event =
    GetJobByJobId string
  | GetApplicationByUserAndJob jsval string
  | UploadFile string
  | ParseResume jsval
  | CreateResume jsval
  | CalculateATSScore jsval string
  | CreateATSScore jsval
  | SendHRNotification jsval
  | SendCandidateConfirmation jsval
  | UpdateEmailSentStatus jsval bool
  | Unlink string

record request =
  req_file :: "string option"
  params_jobId :: string
  user :: props

record response =
  statusCode :: nat
  body :: jsval

definition call :: "event \<Rightarrow> error + 'a \<Rightarrow> event list \<times> (error + 'a)" where
  "call ev outcome = ([ev], outcome)"

text \<open>\<open>const x = await m; k(x)\<close> inside a try block: an exception skips the rest.\<close>

definition bindE ::
  "event list \<times> (error + 'a) \<Rightarrow> ('a \<Rightarrow> event list \<times> (error + 'b)) \<Rightarrow> event list \<times> (error + 'b)" where
  "bindE m k =
     (case m of
        (evs, Inl e) \<Rightarrow> (evs, Inl e)
      | (evs, Inr x) \<Rightarrow> (case k x of (evs', r) \<Rightarrow> (evs @ evs', r)))"

definition respond :: "nat \<Rightarrow> props \<Rightarrow> event list \<times> (error + response)" where
  "respond code json = ([], Inr \<lparr>statusCode = code, body = JObj json\<rparr>)"

text \<open>ToNumber, and \<open>v >= c\<close> for a finite number \<open>c\<close>.\<close>

fun ToNumber :: "runtime \<Rightarrow> jsval \<Rightarrow> jsnum" where
  "ToNumber rt JUndefined = NaN"
| "ToNumber rt JNull = Fin 0"
| "ToNumber rt (JBool b) = Fin (if b then 1 else 0)"
| "ToNumber rt (JNum n) = n"
| "ToNumber rt v = StringToNumber rt v"

definition ge :: "runtime \<Rightarrow> jsval \<Rightarrow> rat \<Rightarrow> bool" where
  "ge rt v c = (case ToNumber rt v of Fin r \<Rightarrow> c \<le> r | PosInf \<Rightarrow> True | _ \<Rightarrow> False)"

definition nullable :: "string option \<Rightarrow> jsval" where
  "nullable v = (case v of None \<Rightarrow> JNull | Some s \<Rightarrow> JStr s)"

text \<open>
  Step 6 of \<open>applyForJob\<close>, the inner try block: the events and the final value of
  \<open>emailSent\<close>.
\<close>

definition notify ::
  "runtime \<Rightarrow> world \<Rightarrow> request \<Rightarrow> job \<Rightarrow> jsval \<Rightarrow> jsval \<Rightarrow> props \<Rightarrow> event list \<times> bool" where
  "notify rt w req job scoringResult resumeUrl atsScore =
     (let candidateEmail = get (JObj (user req)) ''email'';
          candidateName = por (get (JObj (user req)) ''fullName'') (get (JObj (user req)) ''email'');
          hrData = JObj
            [(''hrEmail'', JStr (hr_email job)),
             (''hrName'', nullable (hr_name job)),
             (''jobId'', JStr (job_id job)),
             (''jobTitle'', JStr (title job)),
             (''candidateName'', candidateName),
             (''candidateEmail'', candidateEmail),
             (''matchScore'', get scoringResult ''match_score''),
             (''resumeUrl'', resumeUrl),
             (''keyHighlights'', get scoringResult ''key_highlights'')];
          candidateData = JObj
            [(''candidateEmail'', candidateEmail),
             (''candidateName'', candidateName),
             (''jobId'', JStr (job_id job)),
             (''jobTitle'', JStr (title job)),
             (''companyName'', por (nullable (company_name job)) (JStr ''the company''))]
      in case (if ge rt (get scoringResult ''match_score'') 80
               then call (SendHRNotification hrData) (sendHRNotification w hrData)
               else ([], Inr JUndefined)) of
           (evs1, Inl emailError) \<Rightarrow> (evs1, False)
         | (evs1, Inr _) \<Rightarrow>
            (case call (SendCandidateConfirmation candidateData)
                       (sendCandidateConfirmation w candidateData) of
               (evs2, Inl emailError) \<Rightarrow> (evs1 @ evs2, False)
             | (evs2, Inr _) \<Rightarrow>
                (case call (UpdateEmailSentStatus (get (JObj atsScore) ''id'') True)
                           (updateEmailSentStatus w (get (JObj atsScore) ''id'') True) of
                   (evs3, _) \<Rightarrow> (evs1 @ evs2 @ evs3, True))))"

text \<open>Steps 1 to 8, after validation has passed.\<close>

definition process ::
  "runtime \<Rightarrow> world \<Rightarrow> request \<Rightarrow> string \<Rightarrow> job \<Rightarrow> event list \<times> (error + response)" where
  "process rt w req uploadedFilePath job =
     bindE (call (UploadFile uploadedFilePath) (cloudinary_upload w)) (\<lambda>cloudinaryResult.
     let resumeUrl = get (JObj cloudinaryResult) ''secure_url'' in
     bindE (call (ParseResume resumeUrl) (parseResume w resumeUrl)) (\<lambda>parsedData.
     let resumeData = JObj
           [(''jobId'', JStr (params_jobId req)),
            (''candidateUserId'', get (JObj (user req)) ''id''),
            (''cloudinaryUrl'', resumeUrl),
            (''parsedData'', parsedData)] in
     bindE (call (CreateResume resumeData) (createResume w resumeData)) (\<lambda>resume.
     bindE (call (CalculateATSScore parsedData (description job))
                 (calculateATSScore rt w parsedData (description job))) (\<lambda>scoringResult.
     let scoreData = JObj
           [(''resumeId'', get (JObj resume) ''id''),
            (''jobId'', JStr (job_id job)),
            (''matchScore'', get scoringResult ''match_score''),
            (''shortlistProbability'', get scoringResult ''shortlist_probability''),
            (''salaryRange'', get scoringResult ''salary_range''),
            (''missingSkills'', get scoringResult ''missing_skills''),
            (''strongSkills'', get scoringResult ''strong_skills''),
            (''recommendation'', get scoringResult ''recommendation''),
            (''keyHighlights'', get scoringResult ''key_highlights''),
            (''areasOfConcern'', get scoringResult ''areas_of_concern'')] in
     bindE (call (CreateATSScore scoreData) (createATSScore w scoreData)) (\<lambda>atsScore.
     case notify rt w req job scoringResult resumeUrl atsScore of
       (evs, emailSent) \<Rightarrow>
         (evs @ [Unlink uploadedFilePath],
          Inr \<lparr>statusCode = 201, body = JObj
            [(''success'', JBool True),
             (''message'', JStr ''Application submitted successfully''),
             (''data'', JObj
               [(''applicationId'', get (JObj atsScore) ''id''),
                (''resumeId'', get (JObj resume) ''id''),
                (''jobId'', JStr (job_id job)),
                (''jobTitle'', JStr (title job)),
                (''matchScore'', get scoringResult ''matchScore''),
                (''shortlistProbability'', get scoringResult ''shortlistProbability''),
                (''salaryRange'', get scoringResult ''salaryRange''),
                (''missingSkills'', get scoringResult ''missingSkills''),
                (''strongSkills'', get scoringResult ''strongSkills''),
                (''recommendation'', get scoringResult ''recommendation''),
                (''keyHighlights'', get scoringResult ''keyHighlights''),
                (''areasOfConcern'', get scoringResult ''areasOfConcern''),
                (''emailSent'', JBool emailSent),
                (''resumeUrl'', resumeUrl),
                (''appliedAt'', JStr (now w))])]\<rparr>))))))"

text \<open>The outer try block of \<open>applyForJob\<close>: a response sent, or an exception thrown.\<close>

definition attempt :: "runtime \<Rightarrow> world \<Rightarrow> request \<Rightarrow> event list \<times> (error + response)" where
  "attempt rt w req =
     (case req_file req of
        None \<Rightarrow> respond 400 [(''success'', JBool False), (''error'', JStr ''No resume file uploaded'')]
      | Some uploadedFilePath \<Rightarrow>
          bindE (call (GetJobByJobId (params_jobId req)) (getJobByJobId w (params_jobId req))) (\<lambda>found.
          case found of
            None \<Rightarrow> respond 404 [(''success'', JBool False), (''error'', JStr ''Job not found'')]
          | Some job \<Rightarrow>
              if status job \<noteq> Some ''active''
              then respond 400 [(''success'', JBool False),
                              (''error'', JStr ''This job is no longer accepting applications'')]
              else
                bindE (call (GetApplicationByUserAndJob (get (JObj (user req)) ''id'') (params_jobId req))
                            (getApplicationByUserAndJob w (get (JObj (user req)) ''id'') (params_jobId req)))
                  (\<lambda>existingApplication.
                   case existingApplication of
                     Some row \<Rightarrow> respond 400 [(''success'', JBool False),
                                              (''error'', JStr ''You have already applied for this job'')]
                   | None \<Rightarrow> process rt w req uploadedFilePath job)))"

text \<open>
  \<open>applyForJob(req, res)\<close>: the catch block deletes the local file when its path is
  known, and answers 500.
\<close>

definition applyForJob :: "runtime \<Rightarrow> world \<Rightarrow> request \<Rightarrow> event list \<times> response" where
  "applyForJob rt w req =
     (case attempt rt w req of
        (evs, Inr res) \<Rightarrow> (evs, res)
      | (evs, Inl error) \<Rightarrow>
          (evs @ (case req_file req of
                    None \<Rightarrow> []
                  | Some uploadedFilePath \<Rightarrow> if uploadedFilePath \<noteq> [] then [Unlink uploadedFilePath] else []),
           \<lparr>statusCode = 500, body = JObj
              [(''success'', JBool False),
               (''error'', JStr ''Failed to process application''),
               (''message'', JStr (message error))]\<rparr>))"

section \<open>Concrete runs\<close>

text \<open>
  A runtime on which the model can be run: it prints the integral part of a number, parses
  the texts of a given table and no other, and converts numbers only.
\<close>

definition runtimeWith :: "(string \<times> jsval) list \<Rightarrow> runtime" where
  "runtimeWith table =
     \<lparr>Number_toString = (\<lambda>r. (if r < 0 then ''-'' else []) @ showNat (nat \<lfloor>\<bar>r\<bar>\<rfloor>)),
      JSON_parse = map_of table,
      parseInt10 = (\<lambda>v. case v of JNum (Fin r) \<Rightarrow> Fin (of_int (if r < 0 then - \<lfloor>- r\<rfloor> else \<lfloor>r\<rfloor>))
                              | _ \<Rightarrow> NaN),
      parseFloat = (\<lambda>v. case v of JNum n \<Rightarrow> n | _ \<Rightarrow> NaN),
      StringToNumber = (\<lambda>v. NaN)\<rparr>"

definition backendJob :: job where
  "backendJob =
     \<lparr>job_id = ''JOB-1'', title = ''Backend Engineer'',
      description = ''We use Python, SQL and AWS.'',
      status = Some ''active'', hr_email = ''hr@example.com'', hr_name = Some ''Dana'',
      company_name = None\<rparr>"

definition candidateRequest :: request where
  "candidateRequest =
     \<lparr>req_file = Some ''uploads/resume-1.pdf'', params_jobId = ''JOB-1'',
      user = [(''id'', JStr ''u-1''), (''email'', JStr ''sam@example.com''),
              (''role'', JStr ''candidate'')]\<rparr>"

definition samPayload :: jsval where
  "samPayload =
     JObj [(''full_name'', JStr ''Sam''),
           (''skills'', JArr [JStr ''Python'', JStr ''SQL'', JStr ''AWS''])]"

definition painterPayload :: jsval where
  "painterPayload = JObj [(''name'', JStr ''Sam''), (''skills'', JArr [JStr ''Painting''])]"

text \<open>
  A world in which every service answers, no key of the language model is configured (so
  the fallback scorer runs) and the parser reports a resume that names all three skills of
  \<open>backendJob\<close>.
\<close>

definition quietWorld :: world where
  "quietWorld =
     \<lparr>GEMINI_API_KEY = None, LLM_API_KEY = None,
      PARSER_API_KEY = Some ''k'', PARSER_ENDPOINT = Some ''https://parser.example/parse'',
      gemini = Inl (Error ''unreachable''),
      jobs_single = Data backendJob,
      resumes_single = Failure ''PGRST116'' ''no rows'',
      cloudinary_upload = Inr [(''secure_url'', JStr ''https://cdn.example/r1.pdf'')],
      axios_get = Inr samPayload,
      resumes_insert = Data [(''id'', num 7)],
      ats_scores_insert = Data [(''id'', num 9)],
      ats_scores_update = Data [(''id'', num 9), (''email_sent'', JBool True)],
      sendMail_hr = Inr [(''messageId'', JStr ''m-1'')],
      sendMail_candidate = Inr [(''messageId'', JStr ''m-2'')],
      now = ''2026-02-07T12:30:00.000Z''\<rparr>"

text \<open>The same world after the candidate has already applied to the job.\<close>

definition duplicateWorld :: world where
  "duplicateWorld = quietWorld\<lparr>resumes_single := Data [(''id'', num 3)]\<rparr>"

text \<open>The same world without the job.\<close>

definition jobMissingWorld :: world where
  "jobMissingWorld = quietWorld\<lparr>jobs_single := Failure ''PGRST116'' ''no rows''\<rparr>"

text \<open>A world whose language model answers in prose, with no JSON object in it.\<close>

definition proseWorld :: world where
  "proseWorld = quietWorld\<lparr>GEMINI_API_KEY := Some ''key'', gemini := Inr ''Sorry, I cannot score this.''\<rparr>"

text \<open>Worlds whose mail relay refuses the alert to HR, or the confirmation to the candidate.\<close>

definition hrRelayDownWorld :: world where
  "hrRelayDownWorld = quietWorld\<lparr>sendMail_hr := Inl (Error ''smtp down'')\<rparr>"

definition confirmationDownWorld :: world where
  "confirmationDownWorld = quietWorld\<lparr>sendMail_candidate := Inl (Error ''smtp down'')\<rparr>"

text \<open>
  A job whose row holds an empty \<open>hr_email\<close> (the column is \<open>NOT NULL\<close>, and the empty
  string is a value of it), and the world in which it is the job found.
\<close>

definition unaddressedJob :: job where
  "unaddressedJob = backendJob\<lparr>hr_email := []\<rparr>"

definition unaddressedWorld :: world where
  "unaddressedWorld = quietWorld\<lparr>jobs_single := Data unaddressedJob\<rparr>"

text \<open>A world whose parser reports a resume with none of the skills of the job.\<close>

definition unrelatedWorld :: world where
  "unrelatedWorld = quietWorld\<lparr>axios_get := Inr painterPayload\<rparr>"

definition samResume :: jsval where
  "samResume = JObj [(''skills'', JStr ''Python and SQL'')]"

definition polyglotResume :: jsval where
  "polyglotResume = JObj [(''skills'', JStr ''JavaScript, Python, React, SQL, AWS, Docker'')]"

definition fullStackAd :: string where
  "fullStackAd = ''We need JavaScript, Python, React, SQL, AWS and Docker.''"

text \<open>What the parser gateway makes of \<open>samPayload\<close> and of \<open>painterPayload\<close>.\<close>

definition samParsed :: jsval where
  "samParsed = JObj
     [(''personalInfo'', JObj
        [(''name'', JStr ''Sam''), (''email'', JStr []), (''phone'', JStr []),
         (''location'', JStr []), (''linkedin'', JStr []), (''portfolio'', JStr [])]),
      (''summary'', JStr []),
      (''experience'', JArr []),
      (''education'', JArr []),
      (''skills'', JObj
        [(''technical'', JArr []), (''soft'', JArr []),
         (''all'', JArr [JStr ''Python'', JStr ''SQL'', JStr ''AWS''])]),
      (''certifications'', JArr []),
      (''languages'', JArr []),
      (''totalExperience'', JStr []),
      (''rawData'', samPayload)]"

definition painterParsed :: jsval where
  "painterParsed = JObj
     [(''personalInfo'', JObj
        [(''name'', JStr ''Sam''), (''email'', JStr []), (''phone'', JStr []),
         (''location'', JStr []), (''linkedin'', JStr []), (''portfolio'', JStr [])]),
      (''summary'', JStr []),
      (''experience'', JArr []),
      (''education'', JArr []),
      (''skills'', JObj
        [(''technical'', JArr []), (''soft'', JArr []),
         (''all'', JArr [JStr ''Painting''])]),
      (''certifications'', JArr []),
      (''languages'', JArr []),
      (''totalExperience'', JStr []),
      (''rawData'', painterPayload)]"

text \<open>The verdicts of the fallback scorer on these two resumes for \<open>backendJob\<close>.\<close>

definition fullMatch :: jsval where
  "fullMatch = JObj
     [(''match_score'', num 100),
      (''shortlist_probability'', num 1),
      (''salary_range'', JObj [(''min'', num 60000), (''max'', num 100000)]),
      (''missing_skills'', JArr []),
      (''strong_skills'', JArr [JStr ''python'', JStr ''sql'', JStr ''aws'']),
      (''recommendation'', JStr ''Fallback scoring used - manual review recommended''),
      (''key_highlights'', JArr [JStr ''Automated scoring unavailable'']),
      (''areas_of_concern'', JArr [JStr ''LLM scoring service unavailable''])]"

definition noMatch :: jsval where
  "noMatch = JObj
     [(''match_score'', num 0),
      (''shortlist_probability'', num 0),
      (''salary_range'', JObj [(''min'', num 60000), (''max'', num 100000)]),
      (''missing_skills'', JArr [JStr ''python'', JStr ''sql'', JStr ''aws'']),
      (''strong_skills'', JArr []),
      (''recommendation'', JStr ''Fallback scoring used - manual review recommended''),
      (''key_highlights'', JArr [JStr ''Automated scoring unavailable'']),
      (''areas_of_concern'', JArr [JStr ''LLM scoring service unavailable''])]"

text \<open>The messages the controller hands to the notification dispatcher in these runs.\<close>

definition hrAlert :: jsval where
  "hrAlert = JObj
     [(''hrEmail'', JStr ''hr@example.com''),
      (''hrName'', JStr ''Dana''),
      (''jobId'', JStr ''JOB-1''),
      (''jobTitle'', JStr ''Backend Engineer''),
      (''candidateName'', JStr ''sam@example.com''),
      (''candidateEmail'', JStr ''sam@example.com''),
      (''matchScore'', num 100),
      (''resumeUrl'', JStr ''https://cdn.example/r1.pdf''),
      (''keyHighlights'', JArr [JStr ''Automated scoring unavailable''])]"

definition unaddressedAlert :: jsval where
  "unaddressedAlert = JObj
     [(''hrEmail'', JStr []),
      (''hrName'', JStr ''Dana''),
      (''jobId'', JStr ''JOB-1''),
      (''jobTitle'', JStr ''Backend Engineer''),
      (''candidateName'', JStr ''sam@example.com''),
      (''candidateEmail'', JStr ''sam@example.com''),
      (''matchScore'', num 100),
      (''resumeUrl'', JStr ''https://cdn.example/r1.pdf''),
      (''keyHighlights'', JArr [JStr ''Automated scoring unavailable''])]"

definition confirmation :: jsval where
  "confirmation = JObj
     [(''candidateEmail'', JStr ''sam@example.com''),
      (''candidateName'', JStr ''sam@example.com''),
      (''jobId'', JStr ''JOB-1''),
      (''jobTitle'', JStr ''Backend Engineer''),
      (''companyName'', JStr ''the company'')]"

text \<open>Two parser payloads that differ only in the name of the field that holds the name.\<close>

definition namePayload :: props where
  "namePayload = [(''name'', JStr ''Sam''), (''email'', JStr ''sam@example.com'')]"

definition fullNamePayload :: props where
  "fullNamePayload = [(''full_name'', JStr ''Sam''), (''email'', JStr ''sam@example.com'')]"

section \<open>Observations of a run\<close>

text \<open>A field of the \<open>data\<close> object of the response of a run.\<close>

definition resultField :: "event list \<times> response \<Rightarrow> string \<Rightarrow> jsval" where
  "resultField run k = get (get (body (snd run)) ''data'') k"

text \<open>The calls of a run to the notification dispatcher and to the update of the flag.\<close>

fun isNotification :: "event \<Rightarrow> bool" where
  "isNotification (SendHRNotification _) = True"
| "isNotification (SendCandidateConfirmation _) = True"
| "isNotification (UpdateEmailSentStatus _ _) = True"
| "isNotification _ = False"

definition notifications :: "event list \<times> response \<Rightarrow> event list" where
  "notifications run = filter isNotification (fst run)"

text \<open>Validation passes: a file was uploaded, the job is active, no application exists.\<close>

definition reachesProcessing :: "world \<Rightarrow> request \<Rightarrow> string \<Rightarrow> job \<Rightarrow> bool" where
  "reachesProcessing w req path job \<longleftrightarrow>
     req_file req = Some path \<and> jobs_single w = Data job \<and> status job = Some ''active''
     \<and> single (resumes_single w) = Inr None"

definition personalName :: "jsval \<Rightarrow> jsval" where
  "personalName resume = get (get resume ''personalInfo'') ''name''"

text \<open>A verdict has none of the property names the response reads in camel case.\<close>

definition camelCaseAbsent :: "jsval \<Rightarrow> bool" where
  "camelCaseAbsent sr \<longleftrightarrow>
     get sr ''matchScore'' = JUndefined \<and> get sr ''shortlistProbability'' = JUndefined
       \<and> get sr ''salaryRange'' = JUndefined \<and> get sr ''missingSkills'' = JUndefined
       \<and> get sr ''strongSkills'' = JUndefined \<and> get sr ''keyHighlights'' = JUndefined
       \<and> get sr ''areasOfConcern'' = JUndefined"

section \<open>Validation failures have no side effects\<close>

text \<open>
  Claim C2. When the job does not exist, or exists and is not active, or exists and the
  candidate already has a submission for it, \<open>applyForJob\<close> answers 404 or 400 and the
  only calls it has made are the two reads of validation: no upload, no parser call, no
  scoring call, no insert and no update.
\<close>

theorem validation_failure_no_side_effects:
  assumes "jobs_single w = Failure ''PGRST116'' m
         \<or> (\<exists>job. jobs_single w = Data job
               \<and> (status job \<noteq> Some ''active'' \<or> (\<exists>row. resumes_single w = Data row)))"
  shows "statusCode (snd (applyForJob rt w req)) \<in> {400, 404}
       \<and> set (fst (applyForJob rt w req))
           \<subseteq> {GetJobByJobId (params_jobId req),
               GetApplicationByUserAndJob (get (JObj (user req)) ''id'') (params_jobId req)}"
  using assms
  by (auto simp: applyForJob_def attempt_def bindE_def call_def respond_def getJobByJobId_def
        getApplicationByUserAndJob_def single_def split: option.splits sum.splits prod.splits)

theorem validation_failure_no_side_effects_witness:
  "jobs_single duplicateWorld = Data backendJob
   \<and> resumes_single duplicateWorld = Data [(''id'', num 3)]
   \<and> statusCode (snd (applyForJob (runtimeWith []) duplicateWorld candidateRequest)) \<in> {400, 404}
   \<and> set (fst (applyForJob (runtimeWith []) duplicateWorld candidateRequest))
       \<subseteq> {GetJobByJobId (params_jobId candidateRequest),
           GetApplicationByUserAndJob (get (JObj (user candidateRequest)) ''id'')
             (params_jobId candidateRequest)}"
proof -
  have j: "jobs_single duplicateWorld = Data backendJob"
    by (simp add: duplicateWorld_def quietWorld_def)
  have r: "resumes_single duplicateWorld = Data [(''id'', num 3)]"
    by (simp add: duplicateWorld_def)
  have h: "jobs_single duplicateWorld = Failure ''PGRST116'' []
         \<or> (\<exists>job. jobs_single duplicateWorld = Data job
               \<and> (status job \<noteq> Some ''active'' \<or> (\<exists>row. resumes_single duplicateWorld = Data row)))"
    using j r by blast
  from validation_failure_no_side_effects [OF h, of "runtimeWith []" candidateRequest] j r
  show ?thesis by blast
qed

section \<open>The scoring gateway never raises\<close>

lemma JSON_stringify_None: "JSON_stringify rt v = None \<longleftrightarrow> v = JUndefined"
  by (cases v) simp_all

lemma generateFallbackScore_returns:
  assumes "parsedResume \<noteq> JUndefined"
  shows "\<exists>verdict. generateFallbackScore rt parsedResume jd = Inr verdict"
proof -
  obtain json where "JSON_stringify rt parsedResume = Some json"
    using assms JSON_stringify_None [of rt parsedResume]
    by (cases "JSON_stringify rt parsedResume") auto
  then show ?thesis by (simp add: generateFallbackScore_def Let_def)
qed

lemma calculateATSScore_returns:
  assumes "parsedResume \<noteq> JUndefined"
  shows "\<exists>verdict. calculateATSScore rt w parsedResume jd = Inr verdict"
proof -
  from generateFallbackScore_returns [OF assms]
  obtain fb where "generateFallbackScore rt parsedResume jd = Inr fb" by blast
  then show ?thesis by (simp add: calculateATSScore_def split: sum.splits)
qed

text \<open>What the parser gateway returns is an object, so scoring cannot fail the pipeline.\<close>

lemma parseResume_defined:
  assumes "parseResume w url = Inr parsed"
  shows "parsed \<noteq> JUndefined"
  using assms
  by (auto simp: parseResume_def normalizeParserResponse_def
        split: if_splits sum.splits error.splits)

lemma scoring_after_parsing_returns:
  assumes "parseResume w url = Inr parsed"
  shows "\<exists>verdict. calculateATSScore rt w parsed jd = Inr verdict"
  using parseResume_defined [OF assms] by (rule calculateATSScore_returns)

text \<open>
  Claim C3. For every resume (a value other than \<open>undefined\<close>) and every job
  description, \<open>calculateATSScore\<close> returns a verdict; and when no API key is configured,
  or the call to the language model throws, or its reply holds no span that
  \<open>JSON.parse\<close> accepts, the verdict is the one of the fallback scorer.
\<close>

theorem calculateATSScore_never_raises:
  assumes "parsedResume \<noteq> JUndefined"
  shows "(\<exists>verdict. calculateATSScore rt w parsedResume jd = Inr verdict)
       \<and> ((\<not> isSet (GEMINI_API_KEY w) \<and> \<not> isSet (LLM_API_KEY w))
            \<or> (\<exists>e. gemini w = Inl e)
            \<or> (\<exists>text. gemini w = Inr text
                  \<and> (extractJSON text = None
                      \<or> (\<exists>js. extractJSON text = Some js \<and> JSON_parse rt js = None)))
          \<longrightarrow> calculateATSScore rt w parsedResume jd
                = generateFallbackScore rt parsedResume jd)"
proof -
  have total: "\<exists>verdict. calculateATSScore rt w parsedResume jd = Inr verdict"
    using assms by (rule calculateATSScore_returns)
  have fallback: "calculateATSScore rt w parsedResume jd = generateFallbackScore rt parsedResume jd"
    if "(\<not> isSet (GEMINI_API_KEY w) \<and> \<not> isSet (LLM_API_KEY w))
            \<or> (\<exists>e. gemini w = Inl e)
            \<or> (\<exists>text. gemini w = Inr text
                  \<and> (extractJSON text = None
                      \<or> (\<exists>js. extractJSON text = Some js \<and> JSON_parse rt js = None)))"
    using that
    by (auto simp: calculateATSScore_def parseGeminiResponse_def split: sum.splits)
  show ?thesis using total fallback by blast
qed

theorem calculateATSScore_never_raises_witness:
  "samResume \<noteq> JUndefined
   \<and> gemini proseWorld = Inr ''Sorry, I cannot score this.''
   \<and> extractJSON ''Sorry, I cannot score this.'' = None
   \<and> (\<exists>verdict. calculateATSScore (runtimeWith []) proseWorld samResume ''Python, SQL and AWS'' = Inr verdict)
   \<and> calculateATSScore (runtimeWith []) proseWorld samResume ''Python, SQL and AWS''
       = generateFallbackScore (runtimeWith []) samResume ''Python, SQL and AWS''"
proof -
  have r: "samResume \<noteq> JUndefined" by (simp add: samResume_def)
  have g: "gemini proseWorld = Inr ''Sorry, I cannot score this.''"
    by (simp add: proseWorld_def)
  have x: "extractJSON ''Sorry, I cannot score this.'' = None" by code_simp
  from calculateATSScore_never_raises [OF r, of "runtimeWith []" proseWorld "''Python, SQL and AWS''"] g x r
  show ?thesis by blast
qed

section \<open>The fallback scorer\<close>

lemma startsWith_iff: "startsWith s p \<longleftrightarrow> (\<exists>b. s = p @ b)"
  by (induction s p rule: startsWith.induct) auto

text \<open>\<open>str_includes\<close> is the substring relation.\<close>

lemma str_includes_iff: "str_includes s p \<longleftrightarrow> (\<exists>a b. s = a @ p @ b)"
proof (induction s)
  case Nil
  then show ?case by simp
next
  case (Cons c cs)
  have "(\<exists>a b. c # cs = a @ p @ b) \<longleftrightarrow> (\<exists>b. c # cs = p @ b) \<or> (\<exists>a b. cs = a @ p @ b)"
  proof
    assume "\<exists>a b. c # cs = a @ p @ b"
    then obtain a b where ab: "c # cs = a @ p @ b" by blast
    show "(\<exists>b. c # cs = p @ b) \<or> (\<exists>a b. cs = a @ p @ b)"
    proof (cases a)
      case Nil
      with ab show ?thesis by auto
    next
      case (Cons x xs)
      with ab have "cs = xs @ p @ b" by simp
      then show ?thesis by blast
    qed
  next
    assume "(\<exists>b. c # cs = p @ b) \<or> (\<exists>a b. cs = a @ p @ b)"
    then show "\<exists>a b. c # cs = a @ p @ b"
    proof
      assume "\<exists>b. c # cs = p @ b"
      then obtain b where "c # cs = [] @ p @ b" by auto
      then show ?thesis by blast
    next
      assume "\<exists>a b. cs = a @ p @ b"
      then obtain a b where "c # cs = (c # a) @ p @ b" by auto
      then show ?thesis by blast
    qed
  qed
  with Cons show ?case by (simp only: str_includes.simps startsWith_iff)
qed

lemma filter_conj_le: "length (filter (\<lambda>s. P s \<and> Q s) xs) \<le> length (filter Q xs)"
  by (induction xs) auto

lemma Math_round_unit_bounds:
  fixes a c :: nat
  assumes "a \<le> c" and "0 < c"
  shows "0 \<le> Math_round (of_nat a / of_nat c * 100) \<and> Math_round (of_nat a / of_nat c * 100) \<le> 100"
proof -
  let ?q = "(of_nat a / of_nat c) :: rat"
  have c0: "(0::rat) < of_nat c" using assms(2) by simp
  have "(of_nat a :: rat) \<le> of_nat c" using assms(1) by (simp only: of_nat_le_iff)
  then have q1: "?q \<le> 1" using c0 by (simp only: divide_le_eq_1_pos)
  have q0: "0 \<le> ?q" by simp
  have "?q * 100 \<le> 1 * 100" using q1 by (rule mult_right_mono) simp
  then have le: "?q * 100 \<le> 100" by simp
  have ge: "0 \<le> ?q * 100" using q0 by (rule mult_nonneg_nonneg) simp
  have "0 \<le> ?q * 100 + 1 / 2" using ge by (rule add_nonneg_nonneg) simp
  then have "0 \<le> \<lfloor>?q * 100 + 1 / 2\<rfloor>" by (simp only: zero_le_floor)
  moreover have "\<lfloor>?q * 100 + 1 / 2\<rfloor> \<le> 100"
  proof -
    have "?q * 100 + 1 / 2 < of_int (100 + 1)" using le by simp
    then have "\<lfloor>?q * 100 + 1 / 2\<rfloor> < 100 + 1" by (simp only: floor_less_iff)
    then show ?thesis by simp
  qed
  ultimately show ?thesis unfolding Math_round_def by simp
qed

text \<open>
  Claim C4, as the code has it. For every resume other than \<open>undefined\<close> and every job
  description the fallback scorer returns a verdict in which \<open>strong_skills\<close> is the first
  five, in the order of the vocabulary, of the vocabulary words that occur both in the
  lowercased serialized resume and in the lowercased job description; \<open>missing_skills\<close> is
  the first five of those that occur in the job text and not in the resume text;
  \<open>match_score\<close> is 100 times the number of all the words that occur in both, divided by
  the larger of 1 and the number of words that occur in the job text, rounded to the
  nearest integer, and lies between 0 and 100; \<open>shortlist_probability\<close> is that integer
  divided by 100; and \<open>salary_range\<close> is 60000 to 100000.
\<close>

theorem fallback_verdict:
  assumes "parsedResume \<noteq> JUndefined"
  shows "\<exists>json verdict strong missing m.
      JSON_stringify rt parsedResume = Some json
    \<and> generateFallbackScore rt parsedResume jd = Inr verdict
    \<and> strong = filter (\<lambda>s. str_includes (toLowerCase json) s \<and> str_includes (toLowerCase jd) s)
                 commonSkills
    \<and> missing = filter (\<lambda>s. str_includes (toLowerCase jd) s \<and> \<not> str_includes (toLowerCase json) s)
                 commonSkills
    \<and> get verdict ''strong_skills'' = JArr (map JStr (take 5 strong))
    \<and> get verdict ''missing_skills'' = JArr (map JStr (take 5 missing))
    \<and> m = Math_round (of_nat (length strong)
               / of_nat (max (length (filter (\<lambda>s. str_includes (toLowerCase jd) s) commonSkills)) 1)
               * 100)
    \<and> 0 \<le> m \<and> m \<le> 100
    \<and> get verdict ''match_score'' = num (of_int m)
    \<and> get verdict ''shortlist_probability'' = num (of_int m / 100)
    \<and> get verdict ''salary_range'' = JObj [(''min'', num 60000), (''max'', num 100000)]"
proof -
  obtain json where json: "JSON_stringify rt parsedResume = Some json"
    using assms JSON_stringify_None [of rt parsedResume]
    by (cases "JSON_stringify rt parsedResume") auto
  let ?strong = "filter (\<lambda>s. str_includes (toLowerCase json) s \<and> str_includes (toLowerCase jd) s)
                   commonSkills"
  let ?inJob = "filter (\<lambda>s. str_includes (toLowerCase jd) s) commonSkills"
  let ?m = "Math_round (of_nat (length ?strong) / of_nat (max (length ?inJob) 1) * 100)"
  have "length ?strong \<le> length ?inJob" by (rule filter_conj_le)
  then have "length ?strong \<le> max (length ?inJob) 1" by simp
  moreover have "0 < max (length ?inJob) 1" by simp
  ultimately have b: "0 \<le> ?m \<and> ?m \<le> 100" by (rule Math_round_unit_bounds)
  then have "min 100 ?m = ?m" by simp
  then show ?thesis using b json
    by (simp add: generateFallbackScore_def Let_def)
qed

theorem fallback_verdict_witness:
  "samResume \<noteq> JUndefined
   \<and> (\<exists>json verdict strong missing m.
      JSON_stringify (runtimeWith []) samResume = Some json
    \<and> generateFallbackScore (runtimeWith []) samResume ''Python, SQL and AWS'' = Inr verdict
    \<and> strong = filter (\<lambda>s. str_includes (toLowerCase json) s
                            \<and> str_includes (toLowerCase ''Python, SQL and AWS'') s) commonSkills
    \<and> missing = filter (\<lambda>s. str_includes (toLowerCase ''Python, SQL and AWS'') s
                            \<and> \<not> str_includes (toLowerCase json) s) commonSkills
    \<and> get verdict ''strong_skills'' = JArr (map JStr (take 5 strong))
    \<and> get verdict ''missing_skills'' = JArr (map JStr (take 5 missing))
    \<and> m = Math_round (of_nat (length strong)
               / of_nat (max (length (filter (\<lambda>s. str_includes (toLowerCase ''Python, SQL and AWS'') s)
                                        commonSkills)) 1)
               * 100)
    \<and> 0 \<le> m \<and> m \<le> 100
    \<and> get verdict ''match_score'' = num (of_int m)
    \<and> get verdict ''shortlist_probability'' = num (of_int m / 100)
    \<and> get verdict ''salary_range'' = JObj [(''min'', num 60000), (''max'', num 100000)])"
proof -
  have r: "samResume \<noteq> JUndefined" by (simp add: samResume_def)
  from fallback_verdict [OF r, of "runtimeWith []" "''Python, SQL and AWS''"] r
  show ?thesis by (rule_tac conjI)
qed

text \<open>
  Claim C4 as stated fails twice. The resume and the job description below both contain
  \<open>aws\<close> and \<open>docker\<close>, which are not among the strong skills: seven vocabulary words occur
  in both texts and the verdict keeps the first five. And for a resume with two of the
  three skills of a job the match score is 67, not two thirds of 100.
\<close>

theorem fallback_verdict_counterexample:
  "JSON_stringify (runtimeWith []) polyglotResume \<noteq> None
   \<and> str_includes (toLowerCase (the (JSON_stringify (runtimeWith []) polyglotResume))) ''aws''
   \<and> str_includes (toLowerCase fullStackAd) ''aws''
   \<and> generateFallbackScore (runtimeWith []) polyglotResume fullStackAd
       = Inr (JObj
           [(''match_score'', num 100),
            (''shortlist_probability'', num 1),
            (''salary_range'', JObj [(''min'', num 60000), (''max'', num 100000)]),
            (''missing_skills'', JArr []),
            (''strong_skills'',
               JArr [JStr ''javascript'', JStr ''python'', JStr ''java'', JStr ''react'', JStr ''sql'']),
            (''recommendation'', JStr ''Fallback scoring used - manual review recommended''),
            (''key_highlights'', JArr [JStr ''Automated scoring unavailable'']),
            (''areas_of_concern'', JArr [JStr ''LLM scoring service unavailable''])])
   \<and> generateFallbackScore (runtimeWith []) samResume ''Python, SQL and AWS''
       = Inr (JObj
           [(''match_score'', num 67),
            (''shortlist_probability'', num (67 / 100)),
            (''salary_range'', JObj [(''min'', num 60000), (''max'', num 100000)]),
            (''missing_skills'', JArr [JStr ''aws'']),
            (''strong_skills'', JArr [JStr ''python'', JStr ''sql'']),
            (''recommendation'', JStr ''Fallback scoring used - manual review recommended''),
            (''key_highlights'', JArr [JStr ''Automated scoring unavailable'']),
            (''areas_of_concern'', JArr [JStr ''LLM scoring service unavailable''])])"
  by code_simp

section \<open>The notification dispatcher\<close>

text \<open>
  Claim C6, as the code has it. \<open>sendCandidateConfirmation\<close> never raises: without a
  recipient address it returns \<open>{sent: false, reason}\<close>, and when the hand-over to the
  mail relay throws it returns \<open>{sent: false, error}\<close> with the message of the exception
  (there is no \<open>reason\<close> then). \<open>sendHRNotification\<close> returns \<open>{sent: false, reason}\<close>
  without a recipient address, and when the hand-over to the mail relay throws it raises
  an \<open>Error\<close> whose message is \<open>Email notification failed: \<close> followed by the message
  of the exception.
\<close>

theorem notification_results:
  "(\<exists>r. sendCandidateConfirmation w d = Inr r)
   \<and> (d \<noteq> JUndefined \<and> d \<noteq> JNull \<and> \<not> truthy (por (get d ''candidateEmail'') (get d ''email''))
        \<longrightarrow> sendCandidateConfirmation w d
              = Inr (JObj [(''sent'', JBool False), (''reason'', JStr ''No candidate email'')]))
   \<and> (d \<noteq> JUndefined \<and> d \<noteq> JNull \<and> truthy (por (get d ''candidateEmail'') (get d ''email''))
        \<and> sendMail_candidate w = Inl e
        \<longrightarrow> sendCandidateConfirmation w d
              = Inr (JObj [(''sent'', JBool False), (''error'', JStr (message e))]))
   \<and> (d \<noteq> JUndefined \<and> d \<noteq> JNull \<and> \<not> truthy (get d ''hrEmail'')
        \<longrightarrow> sendHRNotification w d
              = Inr (JObj [(''sent'', JBool False), (''reason'', JStr ''HR email not provided'')]))
   \<and> (d \<noteq> JUndefined \<and> d \<noteq> JNull \<and> truthy (get d ''hrEmail'') \<and> sendMail_hr w = Inl e
        \<longrightarrow> sendHRNotification w d = Inl (Error (''Email notification failed: '' @ message e)))"
  by (cases d)
     (auto simp: sendCandidateConfirmation_def sendHRNotification_def Let_def split: sum.splits)

theorem notification_results_witness:
  "truthy (por (get confirmation ''candidateEmail'') (get confirmation ''email''))
   \<and> sendMail_candidate confirmationDownWorld = Inl (Error ''smtp down'')
   \<and> sendCandidateConfirmation confirmationDownWorld confirmation
       = Inr (JObj [(''sent'', JBool False), (''error'', JStr ''smtp down'')])"
proof -
  have t: "truthy (por (get confirmation ''candidateEmail'') (get confirmation ''email''))"
    by (simp add: confirmation_def por_def)
  have m: "sendMail_candidate confirmationDownWorld = Inl (Error ''smtp down'')"
    by (simp add: confirmationDownWorld_def)
  have d: "confirmation \<noteq> JUndefined \<and> confirmation \<noteq> JNull"
    by (simp add: confirmation_def)
  from notification_results [of confirmationDownWorld confirmation "Error ''smtp down''"] t m d
  have "sendCandidateConfirmation confirmationDownWorld confirmation
       = Inr (JObj [(''sent'', JBool False), (''error'', JStr (message (Error ''smtp down'')))])"
    by blast
  with t m show ?thesis by simp
qed

text \<open>
  Claim C6 as stated fails: with a recipient address and a mail relay that refuses the
  message, \<open>sendHRNotification\<close> raises.
\<close>

theorem sendHRNotification_raises_counterexample:
  "sendHRNotification hrRelayDownWorld hrAlert = Inl (Error ''Email notification failed: smtp down'')"
  by (simp add: sendHRNotification_def hrRelayDownWorld_def hrAlert_def)

section \<open>Normalization of parser payloads\<close>

lemma normalized_name:
  assumes "normalizeParserResponse data = Inr r"
  shows "personalName r = por (por (get data ''name'') (get data ''full_name'')) (JStr [])"
  using assms
  by (cases data)
     (auto simp: normalizeParserResponse_def personalName_def split: sum.splits if_splits)

text \<open>
  Claim C9. Let two parser payloads be objects of which one holds a value under \<open>name\<close> and
  nothing under \<open>full_name\<close>, and the other holds the same value under \<open>full_name\<close> and
  nothing under \<open>name\<close>. Whenever \<open>normalizeParserResponse\<close> returns for both, the two
  results have the same \<open>personalInfo.name\<close>: the value, or the empty string when the
  value is falsy. And when the payloads agree on every other property,
  \<open>normalizeParserResponse\<close> returns for both or throws the same exception for both.
\<close>

theorem normalize_name_convention:
  assumes a: "map_of a ''name'' = Some v" "map_of a ''full_name'' = None"
      and b: "map_of b ''full_name'' = Some v" "map_of b ''name'' = None"
  shows "(\<forall>ra rb. normalizeParserResponse (JObj a) = Inr ra \<and> normalizeParserResponse (JObj b) = Inr rb
            \<longrightarrow> personalName ra = personalName rb \<and> personalName ra = por v (JStr []))
       \<and> ((\<forall>k. k \<noteq> ''name'' \<and> k \<noteq> ''full_name'' \<longrightarrow> map_of a k = map_of b k)
            \<longrightarrow> (\<exists>ra rb. normalizeParserResponse (JObj a) = Inr ra
                       \<and> normalizeParserResponse (JObj b) = Inr rb)
              \<or> (\<exists>e. normalizeParserResponse (JObj a) = Inl e
                     \<and> normalizeParserResponse (JObj b) = Inl e))"
proof (intro conjI allI impI)
  fix ra rb
  assume r: "normalizeParserResponse (JObj a) = Inr ra \<and> normalizeParserResponse (JObj b) = Inr rb"
  have "personalName ra = por v (JStr [])"
    using normalized_name [of "JObj a" ra] r a by (simp add: por_def)
  moreover have "personalName rb = por v (JStr [])"
    using normalized_name [of "JObj b" rb] r b by (simp add: por_def)
  ultimately show "personalName ra = personalName rb" and "personalName ra = por v (JStr [])"
    by simp_all
next
  assume same: "\<forall>k. k \<noteq> ''name'' \<and> k \<noteq> ''full_name'' \<longrightarrow> map_of a k = map_of b k"
  have ex: "map_of a ''experience'' = map_of b ''experience''"
    using same by simp
  have ed: "map_of a ''education'' = map_of b ''education''"
    using same by simp
  show "(\<exists>ra rb. normalizeParserResponse (JObj a) = Inr ra
                       \<and> normalizeParserResponse (JObj b) = Inr rb)
              \<or> (\<exists>e. normalizeParserResponse (JObj a) = Inl e
                     \<and> normalizeParserResponse (JObj b) = Inl e)"
    by (simp add: normalizeParserResponse_def ex ed split: sum.splits)
qed

theorem normalize_name_convention_witness:
  "map_of namePayload ''name'' = Some (JStr ''Sam'')
   \<and> map_of namePayload ''full_name'' = None
   \<and> map_of fullNamePayload ''full_name'' = Some (JStr ''Sam'')
   \<and> map_of fullNamePayload ''name'' = None
   \<and> (\<exists>ra rb. normalizeParserResponse (JObj namePayload) = Inr ra
          \<and> normalizeParserResponse (JObj fullNamePayload) = Inr rb
          \<and> personalName ra = personalName rb
          \<and> personalName ra = JStr ''Sam'')"
proof -
  have a: "map_of namePayload ''name'' = Some (JStr ''Sam'')" "map_of namePayload ''full_name'' = None"
    by (simp_all add: namePayload_def)
  have b: "map_of fullNamePayload ''full_name'' = Some (JStr ''Sam'')" "map_of fullNamePayload ''name'' = None"
    by (simp_all add: fullNamePayload_def)
  obtain ra where ra: "normalizeParserResponse (JObj namePayload) = Inr ra"
    by (simp add: normalizeParserResponse_def namePayload_def)
  obtain rb where rb: "normalizeParserResponse (JObj fullNamePayload) = Inr rb"
    by (simp add: normalizeParserResponse_def fullNamePayload_def)
  from normalize_name_convention [OF a b] ra rb
  have c: "personalName ra = personalName rb \<and> personalName ra = por (JStr ''Sam'') (JStr [])"
    by blast
  have p: "por (JStr ''Sam'') (JStr []) = JStr ''Sam''" by (simp add: por_def)
  from c have c1: "personalName ra = personalName rb"
    and c2: "personalName ra = por (JStr ''Sam'') (JStr [])" by blast+
  from c2 p have "personalName ra = JStr ''Sam''" by (rule trans)
  with a b ra rb c1 show ?thesis by blast
qed

section \<open>The shape of a run\<close>

lemma notify_only_notifies:
  "\<forall>ev\<in>set (fst (notify rt w req job sr url score)). isNotification ev"
  by (auto simp: notify_def Let_def call_def split: if_splits sum.splits prod.splits)

lemma notify_hr_throws:
  assumes "notify rt w req job sr url score = (evs, sent)"
      and "SendHRNotification d \<in> set evs" and "sendHRNotification w d = Inl e"
  shows "evs = [SendHRNotification d] \<and> \<not> sent"
  using assms
  by (auto simp: notify_def Let_def call_def split: if_splits sum.splits prod.splits)

lemma notify_hr_gate:
  assumes "SendHRNotification d \<in> set (fst (notify rt w req job sr url score))"
  shows "ge rt (get sr ''match_score'') 80 \<and> get d ''matchScore'' = get sr ''match_score''"
  using assms
  by (auto simp: notify_def Let_def call_def split: if_splits sum.splits prod.splits)

lemma sendCandidateConfirmation_never_throws: "sendCandidateConfirmation w d \<noteq> Inl e"
  by (simp add: sendCandidateConfirmation_def Let_def split: sum.splits)

lemma notify_sent_iff:
  "snd (notify rt w req job sr url score)
     \<longleftrightarrow> (\<exists>c. SendCandidateConfirmation c \<in> set (fst (notify rt w req job sr url score)))"
  by (auto simp: notify_def Let_def call_def sendCandidateConfirmation_never_throws
        split: if_splits sum.splits prod.splits)

lemma applyForJob_processing:
  assumes "reachesProcessing w req path job"
  shows "applyForJob rt w req
       = (case process rt w req path job of
            (evs, Inr res) \<Rightarrow>
              ([GetJobByJobId (params_jobId req),
                GetApplicationByUserAndJob (get (JObj (user req)) ''id'') (params_jobId req)] @ evs, res)
          | (evs, Inl e) \<Rightarrow>
              ([GetJobByJobId (params_jobId req),
                GetApplicationByUserAndJob (get (JObj (user req)) ''id'') (params_jobId req)] @ evs
                 @ (if path \<noteq> [] then [Unlink path] else []),
               \<lparr>statusCode = 500, body = JObj
                  [(''success'', JBool False),
                   (''error'', JStr ''Failed to process application''),
                   (''message'', JStr (message e))]\<rparr>))"
  using assms
  by (simp add: reachesProcessing_def applyForJob_def attempt_def bindE_def call_def
        getJobByJobId_def getApplicationByUserAndJob_def single_def
        split: prod.splits sum.splits)

lemma applyForJob_stops:
  assumes "\<not> (\<exists>path job. reachesProcessing w req path job)"
  shows "(\<forall>ev\<in>set (fst (applyForJob rt w req)). \<not> isNotification ev)
       \<and> statusCode (snd (applyForJob rt w req)) \<noteq> 201"
  using assms
  by (auto simp: reachesProcessing_def applyForJob_def attempt_def bindE_def call_def respond_def
        getJobByJobId_def getApplicationByUserAndJob_def single_def
        split: option.splits sum.splits prod.splits reply.splits if_splits)

lemma process_cases:
  "(\<exists>evs e. process rt w req path job = (evs, Inl e) \<and> (\<forall>ev\<in>set evs. \<not> isNotification ev))
   \<or> (\<exists>up parsed resume sr score.
         cloudinary_upload w = Inr up
       \<and> parseResume w (get (JObj up) ''secure_url'') = Inr parsed
       \<and> resumes_insert w = Data resume
       \<and> calculateATSScore rt w parsed (description job) = Inr sr
       \<and> ats_scores_insert w = Data score)"
proof (cases "cloudinary_upload w")
  case (Inl e)
  then show ?thesis by (simp add: process_def bindE_def call_def)
next
  case up: (Inr up)
  show ?thesis
  proof (cases "parseResume w (get (JObj up) ''secure_url'')")
    case (Inl e)
    with up show ?thesis by (simp add: process_def bindE_def call_def Let_def)
  next
    case parsed: (Inr parsed)
    show ?thesis
    proof (cases "resumes_insert w")
      case (Failure c m)
      with up parsed show ?thesis
        by (simp add: process_def bindE_def call_def Let_def createResume_def written_def)
    next
      case resume: (Data resume)
      show ?thesis
      proof (cases "calculateATSScore rt w parsed (description job)")
        case (Inl e)
        with up parsed resume show ?thesis
          by (simp add: process_def bindE_def call_def Let_def createResume_def written_def)
      next
        case sr: (Inr sr)
        show ?thesis
        proof (cases "ats_scores_insert w")
          case (Failure c m)
          with up parsed resume sr show ?thesis
            by (simp add: process_def bindE_def call_def Let_def createResume_def
                createATSScore_def written_def)
        next
          case (Data score)
          with up parsed resume sr show ?thesis by blast
        qed
      qed
    qed
  qed
qed

text \<open>
  A run that passes validation and in which the upload, the parser, both inserts and the
  scorer succeed answers 201; its notification calls are those of step 6, and the fields
  of its result are read from the verdict under the names shown.
\<close>

lemma run_success:
  assumes reach: "reachesProcessing w req path job"
      and up: "cloudinary_upload w = Inr up"
      and parsed: "parseResume w (get (JObj up) ''secure_url'') = Inr parsed"
      and resume: "resumes_insert w = Data resume"
      and sr: "calculateATSScore rt w parsed (description job) = Inr sr"
      and score: "ats_scores_insert w = Data score"
      and n: "notify rt w req job sr (get (JObj up) ''secure_url'') score = (evsN, sent)"
  shows "statusCode (snd (applyForJob rt w req)) = 201"
    and "notifications (applyForJob rt w req) = evsN"
    and "Unlink path \<in> set (fst (applyForJob rt w req))"
    and "resultField (applyForJob rt w req) ''emailSent'' = JBool sent"
    and "resultField (applyForJob rt w req) ''matchScore'' = get sr ''matchScore''"
    and "resultField (applyForJob rt w req) ''shortlistProbability'' = get sr ''shortlistProbability''"
    and "resultField (applyForJob rt w req) ''salaryRange'' = get sr ''salaryRange''"
    and "resultField (applyForJob rt w req) ''missingSkills'' = get sr ''missingSkills''"
    and "resultField (applyForJob rt w req) ''strongSkills'' = get sr ''strongSkills''"
    and "resultField (applyForJob rt w req) ''recommendation'' = get sr ''recommendation''"
    and "resultField (applyForJob rt w req) ''keyHighlights'' = get sr ''keyHighlights''"
    and "resultField (applyForJob rt w req) ''areasOfConcern'' = get sr ''areasOfConcern''"
    and "\<exists>scoreData. CreateATSScore scoreData \<in> set (fst (applyForJob rt w req))
           \<and> get scoreData ''matchScore'' = get sr ''match_score''
           \<and> get (JObj (scoreRow scoreData)) ''match_score'' = get sr ''match_score''
           \<and> get (JObj (scoreRow scoreData)) ''email_sent'' = JBool False"
    and "CalculateATSScore parsed (description job) \<in> set (fst (applyForJob rt w req))"
proof -
  have f: "filter isNotification evsN = evsN"
    using notify_only_notifies [of rt w req job sr "get (JObj up) ''secure_url''" score] n
    by (simp add: filter_id_conv)
  have p: "\<exists>rd sd res. process rt w req path job
             = ([UploadFile path, ParseResume (get (JObj up) ''secure_url''), CreateResume rd,
                 CalculateATSScore parsed (description job), CreateATSScore sd] @ evsN @ [Unlink path],
                Inr res)
         \<and> statusCode res = 201
         \<and> get (get (body res) ''data'') ''emailSent'' = JBool sent
         \<and> get (get (body res) ''data'') ''matchScore'' = get sr ''matchScore''
         \<and> get (get (body res) ''data'') ''shortlistProbability'' = get sr ''shortlistProbability''
         \<and> get (get (body res) ''data'') ''salaryRange'' = get sr ''salaryRange''
         \<and> get (get (body res) ''data'') ''missingSkills'' = get sr ''missingSkills''
         \<and> get (get (body res) ''data'') ''strongSkills'' = get sr ''strongSkills''
         \<and> get (get (body res) ''data'') ''recommendation'' = get sr ''recommendation''
         \<and> get (get (body res) ''data'') ''keyHighlights'' = get sr ''keyHighlights''
         \<and> get (get (body res) ''data'') ''areasOfConcern'' = get sr ''areasOfConcern''
         \<and> get sd ''matchScore'' = get sr ''match_score''
         \<and> get (JObj (scoreRow sd)) ''match_score'' = get sr ''match_score''
         \<and> get (JObj (scoreRow sd)) ''email_sent'' = JBool False"
    using up parsed resume sr score n
    by (simp add: process_def bindE_def call_def Let_def createResume_def createATSScore_def
          written_def scoreRow_def por_def)
  then obtain rd sd res where
    pr: "process rt w req path job
             = ([UploadFile path, ParseResume (get (JObj up) ''secure_url''), CreateResume rd,
                 CalculateATSScore parsed (description job), CreateATSScore sd] @ evsN @ [Unlink path],
                Inr res)"
    and rest: "statusCode res = 201"
         "get (get (body res) ''data'') ''emailSent'' = JBool sent"
         "get (get (body res) ''data'') ''matchScore'' = get sr ''matchScore''"
         "get (get (body res) ''data'') ''shortlistProbability'' = get sr ''shortlistProbability''"
         "get (get (body res) ''data'') ''salaryRange'' = get sr ''salaryRange''"
         "get (get (body res) ''data'') ''missingSkills'' = get sr ''missingSkills''"
         "get (get (body res) ''data'') ''strongSkills'' = get sr ''strongSkills''"
         "get (get (body res) ''data'') ''recommendation'' = get sr ''recommendation''"
         "get (get (body res) ''data'') ''keyHighlights'' = get sr ''keyHighlights''"
         "get (get (body res) ''data'') ''areasOfConcern'' = get sr ''areasOfConcern''"
    and sd: "get sd ''matchScore'' = get sr ''match_score''"
         "get (JObj (scoreRow sd)) ''match_score'' = get sr ''match_score''"
         "get (JObj (scoreRow sd)) ''email_sent'' = JBool False"
    by blast
  have run: "applyForJob rt w req
        = ([GetJobByJobId (params_jobId req),
            GetApplicationByUserAndJob (get (JObj (user req)) ''id'') (params_jobId req),
            UploadFile path, ParseResume (get (JObj up) ''secure_url''), CreateResume rd,
            CalculateATSScore parsed (description job), CreateATSScore sd] @ evsN @ [Unlink path], res)"
    using applyForJob_processing [OF reach, of rt] pr by simp
  show "statusCode (snd (applyForJob rt w req)) = 201" using run rest(1) by simp
  show "notifications (applyForJob rt w req) = evsN" using run f by (simp add: notifications_def)
  show "Unlink path \<in> set (fst (applyForJob rt w req))" using run by simp
  show "resultField (applyForJob rt w req) ''emailSent'' = JBool sent"
    using run rest(2) by (simp add: resultField_def)
  show "resultField (applyForJob rt w req) ''matchScore'' = get sr ''matchScore''"
    using run rest(3) by (simp add: resultField_def)
  show "resultField (applyForJob rt w req) ''shortlistProbability'' = get sr ''shortlistProbability''"
    using run rest(4) by (simp add: resultField_def)
  show "resultField (applyForJob rt w req) ''salaryRange'' = get sr ''salaryRange''"
    using run rest(5) by (simp add: resultField_def)
  show "resultField (applyForJob rt w req) ''missingSkills'' = get sr ''missingSkills''"
    using run rest(6) by (simp add: resultField_def)
  show "resultField (applyForJob rt w req) ''strongSkills'' = get sr ''strongSkills''"
    using run rest(7) by (simp add: resultField_def)
  show "resultField (applyForJob rt w req) ''recommendation'' = get sr ''recommendation''"
    using run rest(8) by (simp add: resultField_def)
  show "resultField (applyForJob rt w req) ''keyHighlights'' = get sr ''keyHighlights''"
    using run rest(9) by (simp add: resultField_def)
  show "resultField (applyForJob rt w req) ''areasOfConcern'' = get sr ''areasOfConcern''"
    using run rest(10) by (simp add: resultField_def)
  have "CreateATSScore sd \<in> set (fst (applyForJob rt w req))" using run by simp
  with sd show "\<exists>scoreData. CreateATSScore scoreData \<in> set (fst (applyForJob rt w req))
           \<and> get scoreData ''matchScore'' = get sr ''match_score''
           \<and> get (JObj (scoreRow scoreData)) ''match_score'' = get sr ''match_score''
           \<and> get (JObj (scoreRow scoreData)) ''email_sent'' = JBool False" by blast
  show "CalculateATSScore parsed (description job) \<in> set (fst (applyForJob rt w req))"
    using run by simp
qed

text \<open>Every run is of one of three kinds.\<close>

lemma run_cases:
  obtains (stopped) "\<forall>ev\<in>set (fst (applyForJob rt w req)). \<not> isNotification ev"
                    "statusCode (snd (applyForJob rt w req)) \<noteq> 201"
  | (succeeded) path job up parsed resume sr score where
      "reachesProcessing w req path job"
      "cloudinary_upload w = Inr up"
      "parseResume w (get (JObj up) ''secure_url'') = Inr parsed"
      "resumes_insert w = Data resume"
      "calculateATSScore rt w parsed (description job) = Inr sr"
      "ats_scores_insert w = Data score"
proof (cases "\<exists>path job. reachesProcessing w req path job")
  case False
  from applyForJob_stops [OF this, of rt] show ?thesis by (intro stopped) simp_all
next
  case True
  then obtain path job where reach: "reachesProcessing w req path job" by blast
  note run = applyForJob_processing [OF reach, of rt]
  from process_cases [of rt w req path job]
  show ?thesis
  proof
    assume "\<exists>evs e. process rt w req path job = (evs, Inl e) \<and> (\<forall>ev\<in>set evs. \<not> isNotification ev)"
    then obtain evs e where "process rt w req path job = (evs, Inl e)"
      and "\<forall>ev\<in>set evs. \<not> isNotification ev" by blast
    with run show ?thesis by (intro stopped) auto
  next
    assume "\<exists>up parsed resume sr score.
         cloudinary_upload w = Inr up
       \<and> parseResume w (get (JObj up) ''secure_url'') = Inr parsed
       \<and> resumes_insert w = Data resume
       \<and> calculateATSScore rt w parsed (description job) = Inr sr
       \<and> ats_scores_insert w = Data score"
    with reach show ?thesis by (elim exE conjE) (rule succeeded)
  qed
qed

lemma verdict_shape_names:
  "camelCaseAbsent (JObj
     [(''match_score'', a), (''shortlist_probability'', b), (''salary_range'', c),
      (''missing_skills'', d), (''strong_skills'', e), (''recommendation'', f),
      (''key_highlights'', g), (''areas_of_concern'', h)])"
  by (simp add: camelCaseAbsent_def)

lemma parsed_verdict_names:
  assumes "parseGeminiResponse rt text = Inr sr"
  shows "camelCaseAbsent sr"
proof -
  from assms obtain a b c d e f g h where
    "sr = JObj
     [(''match_score'', a), (''shortlist_probability'', b), (''salary_range'', c),
      (''missing_skills'', d), (''strong_skills'', e), (''recommendation'', f),
      (''key_highlights'', g), (''areas_of_concern'', h)]"
    by (auto simp: parseGeminiResponse_def split: if_splits option.splits sum.splits)
  then show ?thesis by (simp only: verdict_shape_names)
qed

lemma fallback_verdict_names:
  assumes "generateFallbackScore rt parsed jd = Inr sr"
  shows "camelCaseAbsent sr"
proof -
  from assms obtain a b c d e f g h where
    "sr = JObj
     [(''match_score'', a), (''shortlist_probability'', b), (''salary_range'', c),
      (''missing_skills'', d), (''strong_skills'', e), (''recommendation'', f),
      (''key_highlights'', g), (''areas_of_concern'', h)]"
    by (auto simp: generateFallbackScore_def Let_def split: option.splits)
  then show ?thesis by (simp only: verdict_shape_names)
qed

lemma verdict_names:
  assumes "calculateATSScore rt w parsed jd = Inr sr"
  shows "camelCaseAbsent sr"
  using assms parsed_verdict_names fallback_verdict_names
  by (auto simp: calculateATSScore_def split: sum.splits if_splits)

lemma created_response_omits_verdict:
  assumes "statusCode (snd (applyForJob rt w req)) = 201"
  shows "resultField (applyForJob rt w req) ''matchScore'' = JUndefined
       \<and> resultField (applyForJob rt w req) ''shortlistProbability'' = JUndefined
       \<and> resultField (applyForJob rt w req) ''salaryRange'' = JUndefined
       \<and> resultField (applyForJob rt w req) ''missingSkills'' = JUndefined
       \<and> resultField (applyForJob rt w req) ''strongSkills'' = JUndefined
       \<and> resultField (applyForJob rt w req) ''keyHighlights'' = JUndefined
       \<and> resultField (applyForJob rt w req) ''areasOfConcern'' = JUndefined"
proof (cases rule: run_cases [of rt w req])
  case stopped
  with assms show ?thesis by simp
next
  case (succeeded path job up parsed resume sr score)
  obtain evsN sent where n: "notify rt w req job sr (get (JObj up) ''secure_url'') score = (evsN, sent)"
    by (cases "notify rt w req job sr (get (JObj up) ''secure_url'') score") blast
  note rs = run_success [OF succeeded n]
  from verdict_names [OF succeeded(5)] rs(5-9, 11, 12) show ?thesis
    by (simp add: camelCaseAbsent_def)
qed

lemma hr_notified_only_from_80:
  assumes "SendHRNotification d \<in> set (fst (applyForJob rt w req))"
  shows "ge rt (get d ''matchScore'') 80"
proof (cases rule: run_cases [of rt w req])
  case stopped
  with assms show ?thesis by auto
next
  case (succeeded path job up parsed resume sr score)
  obtain evsN sent where n: "notify rt w req job sr (get (JObj up) ''secure_url'') score = (evsN, sent)"
    by (cases "notify rt w req job sr (get (JObj up) ''secure_url'') score") blast
  from run_success(2) [OF succeeded n] assms
  have "SendHRNotification d \<in> set evsN" by (auto simp: notifications_def)
  with n notify_hr_gate [of d rt w req job sr "get (JObj up) ''secure_url''" score]
  show ?thesis by simp
qed

lemma emailSent_iff_confirmation_called:
  assumes "statusCode (snd (applyForJob rt w req)) = 201"
  shows "resultField (applyForJob rt w req) ''emailSent'' = JBool True
       \<longleftrightarrow> (\<exists>c. SendCandidateConfirmation c \<in> set (fst (applyForJob rt w req)))"
proof (cases rule: run_cases [of rt w req])
  case stopped
  with assms show ?thesis by simp
next
  case (succeeded path job up parsed resume sr score)
  obtain evsN sent where n: "notify rt w req job sr (get (JObj up) ''secure_url'') score = (evsN, sent)"
    by (cases "notify rt w req job sr (get (JObj up) ''secure_url'') score") blast
  note rs = run_success [OF succeeded n]
  have "(\<exists>c. SendCandidateConfirmation c \<in> set (fst (applyForJob rt w req)))
        \<longleftrightarrow> (\<exists>c. SendCandidateConfirmation c \<in> set evsN)"
    using rs(2) by (auto simp: notifications_def dest: arg_cong [where f = set])
  moreover have "sent \<longleftrightarrow> (\<exists>c. SendCandidateConfirmation c \<in> set evsN)"
    using notify_sent_iff [of rt w req job sr "get (JObj up) ''secure_url''" score] n by simp
  ultimately show ?thesis using rs(4) by simp
qed

lemma thrown_run_unlinks:
  assumes "attempt rt w req = (evs, Inl e)" and "req_file req = Some path" and "path \<noteq> []"
  shows "Unlink path \<in> set (fst (applyForJob rt w req))
       \<and> statusCode (snd (applyForJob rt w req)) = 500"
  using assms by (simp add: applyForJob_def)


section \<open>A failed alert to HR suppresses the confirmation\<close>

text \<open>
  Claim C10. In every run in which \<open>sendHRNotification\<close> is called and throws, the
  match score is at least 80, the run answers 201 with \<open>emailSent: false\<close>, the alert
  to HR is its only notification call (\<open>sendCandidateConfirmation\<close> and
  \<open>updateEmailSentStatus\<close> are never called), and the score row was inserted with
  \<open>email_sent\<close> false.
\<close>

theorem hr_failure_suppresses_confirmation:
  assumes hr: "SendHRNotification d \<in> set (fst (applyForJob rt w req))"
      and throws: "sendHRNotification w d = Inl e"
  shows "statusCode (snd (applyForJob rt w req)) = 201
       \<and> resultField (applyForJob rt w req) ''emailSent'' = JBool False
       \<and> (\<forall>c. SendCandidateConfirmation c \<notin> set (fst (applyForJob rt w req)))
       \<and> (\<forall>i b. UpdateEmailSentStatus i b \<notin> set (fst (applyForJob rt w req)))
       \<and> notifications (applyForJob rt w req) = [SendHRNotification d]
       \<and> ge rt (get d ''matchScore'') 80
       \<and> (\<exists>scoreData. CreateATSScore scoreData \<in> set (fst (applyForJob rt w req))
              \<and> get (JObj (scoreRow scoreData)) ''email_sent'' = JBool False)"
proof (cases rule: run_cases [of rt w req])
  case stopped
  with hr show ?thesis by auto
next
  case (succeeded path job up parsed resume sr score)
  obtain evsN sent where n: "notify rt w req job sr (get (JObj up) ''secure_url'') score = (evsN, sent)"
    by (cases "notify rt w req job sr (get (JObj up) ''secure_url'') score") blast
  note rs = run_success [OF succeeded n]
  from rs(2) hr have "SendHRNotification d \<in> set evsN" by (auto simp: notifications_def)
  from notify_hr_throws [OF n this throws]
  have nn: "evsN = [SendHRNotification d]" "\<not> sent" by simp_all
  have all: "notifications (applyForJob rt w req) = [SendHRNotification d]"
    using rs(2) nn(1) by simp
  have noC: "\<forall>c. SendCandidateConfirmation c \<notin> set (fst (applyForJob rt w req))"
  proof (intro allI notI)
    fix c assume "SendCandidateConfirmation c \<in> set (fst (applyForJob rt w req))"
    then have "SendCandidateConfirmation c \<in> set (notifications (applyForJob rt w req))"
      by (simp add: notifications_def)
    with all show False by simp
  qed
  have noU: "\<forall>i b. UpdateEmailSentStatus i b \<notin> set (fst (applyForJob rt w req))"
  proof (intro allI notI)
    fix i b assume "UpdateEmailSentStatus i b \<in> set (fst (applyForJob rt w req))"
    then have "UpdateEmailSentStatus i b \<in> set (notifications (applyForJob rt w req))"
      by (simp add: notifications_def)
    with all show False by simp
  qed
  have g: "ge rt (get d ''matchScore'') 80"
    using notify_hr_gate [of d rt w req job sr "get (JObj up) ''secure_url''" score] n
      \<open>SendHRNotification d \<in> set evsN\<close> by simp
  from rs(13) have row: "\<exists>scoreData. CreateATSScore scoreData \<in> set (fst (applyForJob rt w req))
              \<and> get (JObj (scoreRow scoreData)) ''email_sent'' = JBool False" by blast
  from rs(1) rs(4) nn(2) noC noU all g row show ?thesis by simp
qed

section \<open>Runs of the concrete worlds\<close>

lemma sam_normalized: "normalizeParserResponse samPayload = Inr samParsed"
  by code_simp

lemma painter_normalized: "normalizeParserResponse painterPayload = Inr painterParsed"
  by code_simp

lemma parseResume_configured:
  assumes "PARSER_API_KEY w = Some ''k''" and "PARSER_ENDPOINT w = Some ''https://parser.example/parse''"
      and "axios_get w = Inr payload" and "truthy payload"
      and "normalizeParserResponse payload = Inr parsed"
  shows "parseResume w url = Inr parsed"
  using assms by (simp add: parseResume_def isSet_def)

lemma fallback_when_unconfigured:
  assumes "GEMINI_API_KEY w = None" and "LLM_API_KEY w = None"
  shows "calculateATSScore rt w parsed jd = generateFallbackScore rt parsed jd"
  using assms by (simp add: calculateATSScore_def isSet_def)

lemma sam_fallback:
  "generateFallbackScore (runtimeWith []) samParsed ''We use Python, SQL and AWS.'' = Inr fullMatch"
  by code_simp

lemma painter_fallback:
  "generateFallbackScore (runtimeWith []) painterParsed ''We use Python, SQL and AWS.'' = Inr noMatch"
  by code_simp

lemma quiet_notify:
  "notify (runtimeWith []) quietWorld candidateRequest backendJob fullMatch
      (JStr ''https://cdn.example/r1.pdf'') [(''id'', num 9)]
    = ([SendHRNotification hrAlert, SendCandidateConfirmation confirmation,
        UpdateEmailSentStatus (num 9) True], True)"
  by (simp add: notify_def Let_def call_def fullMatch_def ge_def num_def sendHRNotification_def
        sendCandidateConfirmation_def updateEmailSentStatus_def written_def quietWorld_def
        candidateRequest_def backendJob_def por_def nullable_def hrAlert_def confirmation_def
        runtimeWith_def)


lemma hrRelayDown_notify:
  "notify (runtimeWith []) hrRelayDownWorld candidateRequest backendJob fullMatch
      (JStr ''https://cdn.example/r1.pdf'') [(''id'', num 9)]
    = ([SendHRNotification hrAlert], False)"
  by (simp add: notify_def Let_def call_def fullMatch_def ge_def num_def sendHRNotification_def
        hrRelayDownWorld_def quietWorld_def
        candidateRequest_def backendJob_def por_def nullable_def hrAlert_def
        runtimeWith_def)

lemma unaddressed_notify:
  "notify (runtimeWith []) unaddressedWorld candidateRequest unaddressedJob fullMatch
      (JStr ''https://cdn.example/r1.pdf'') [(''id'', num 9)]
    = ([SendHRNotification unaddressedAlert, SendCandidateConfirmation confirmation,
        UpdateEmailSentStatus (num 9) True], True)"
  by (simp add: notify_def Let_def call_def fullMatch_def ge_def num_def sendHRNotification_def
        sendCandidateConfirmation_def updateEmailSentStatus_def written_def
        unaddressedWorld_def unaddressedJob_def quietWorld_def
        candidateRequest_def backendJob_def por_def nullable_def unaddressedAlert_def
        confirmation_def runtimeWith_def)

lemma unrelated_notify:
  "notify (runtimeWith []) unrelatedWorld candidateRequest backendJob noMatch
      (JStr ''https://cdn.example/r1.pdf'') [(''id'', num 9)]
    = ([SendCandidateConfirmation confirmation, UpdateEmailSentStatus (num 9) True], True)"
  by (simp add: notify_def Let_def call_def noMatch_def ge_def num_def
        sendCandidateConfirmation_def updateEmailSentStatus_def written_def
        unrelatedWorld_def quietWorld_def
        candidateRequest_def backendJob_def por_def nullable_def confirmation_def
        runtimeWith_def)

text \<open>
  The run of \<open>candidateRequest\<close> in a world that answers as \<open>quietWorld\<close> does up to the
  insert of the score: the parser reports \<open>payload\<close>, the fallback scorer returns \<open>sr\<close>.
\<close>

lemma sample_run:
  assumes w: "jobs_single w = Data backendJob"
             "resumes_single w = Failure ''PGRST116'' ''no rows''"
             "cloudinary_upload w = Inr [(''secure_url'', JStr ''https://cdn.example/r1.pdf'')]"
             "PARSER_API_KEY w = Some ''k''"
             "PARSER_ENDPOINT w = Some ''https://parser.example/parse''"
             "axios_get w = Inr payload"
             "resumes_insert w = Data [(''id'', num 7)]"
             "GEMINI_API_KEY w = None"
             "LLM_API_KEY w = None"
             "ats_scores_insert w = Data [(''id'', num 9)]"
      and norm: "truthy payload" "normalizeParserResponse payload = Inr parsed"
      and fb: "generateFallbackScore rt parsed ''We use Python, SQL and AWS.'' = Inr sr"
      and n: "notify rt w candidateRequest backendJob sr (JStr ''https://cdn.example/r1.pdf'')
                [(''id'', num 9)] = (evsN, sent)"
  shows "statusCode (snd (applyForJob rt w candidateRequest)) = 201"
    and "notifications (applyForJob rt w candidateRequest) = evsN"
    and "resultField (applyForJob rt w candidateRequest) ''emailSent'' = JBool sent"
    and "resultField (applyForJob rt w candidateRequest) ''recommendation'' = get sr ''recommendation''"
    and "CalculateATSScore parsed (description backendJob) \<in> set (fst (applyForJob rt w candidateRequest))"
    and "calculateATSScore rt w parsed (description backendJob) = Inr sr"
proof -
  have reach: "reachesProcessing w candidateRequest ''uploads/resume-1.pdf'' backendJob"
    using w(1,2) by (simp add: reachesProcessing_def candidateRequest_def backendJob_def single_def)
  have parsed: "parseResume w (get (JObj [(''secure_url'', JStr ''https://cdn.example/r1.pdf'')]) ''secure_url'')
                  = Inr parsed"
    using w(4,5,6) norm by (rule parseResume_configured)
  have sr: "calculateATSScore rt w parsed (description backendJob) = Inr sr"
    using w(8,9) fb by (simp add: fallback_when_unconfigured backendJob_def)
  have n': "notify rt w candidateRequest backendJob sr
      (get (JObj [(''secure_url'', JStr ''https://cdn.example/r1.pdf'')]) ''secure_url'') [(''id'', num 9)]
    = (evsN, sent)"
    using n by simp
  note rs = run_success [OF reach w(3) parsed w(7) sr w(10) n']
  show "statusCode (snd (applyForJob rt w candidateRequest)) = 201" by (rule rs(1))
  show "notifications (applyForJob rt w candidateRequest) = evsN" by (rule rs(2))
  show "resultField (applyForJob rt w candidateRequest) ''emailSent'' = JBool sent" by (rule rs(4))
  show "resultField (applyForJob rt w candidateRequest) ''recommendation'' = get sr ''recommendation''"
    by (rule rs(10))
  show "CalculateATSScore parsed (description backendJob) \<in> set (fst (applyForJob rt w candidateRequest))"
    by (rule rs(14))
  show "calculateATSScore rt w parsed (description backendJob) = Inr sr" by (rule sr)
qed

lemma sample_worlds:
  "jobs_single quietWorld = Data backendJob"
  "resumes_single quietWorld = Failure ''PGRST116'' ''no rows''"
  "cloudinary_upload quietWorld = Inr [(''secure_url'', JStr ''https://cdn.example/r1.pdf'')]"
  "PARSER_API_KEY quietWorld = Some ''k''"
  "PARSER_ENDPOINT quietWorld = Some ''https://parser.example/parse''"
  "axios_get quietWorld = Inr samPayload"
  "resumes_insert quietWorld = Data [(''id'', num 7)]"
  "GEMINI_API_KEY quietWorld = None"
  "LLM_API_KEY quietWorld = None"
  "ats_scores_insert quietWorld = Data [(''id'', num 9)]"
  by (simp_all add: quietWorld_def)

text \<open>
  Claim C1 says that every successful run returns all the fields of the verdict. On the
  run of \<open>candidateRequest\<close> in \<open>quietWorld\<close> the verdict computed has a match score of
  100 and a recommendation that flags fallback scoring, the recommendation is returned, and
  the result sent to the caller has no \<open>matchScore\<close>, \<open>shortlistProbability\<close>, \<open>salaryRange\<close>,
  \<open>missingSkills\<close>, \<open>strongSkills\<close>, \<open>keyHighlights\<close> or \<open>areasOfConcern\<close>: the
  controller reads them from the verdict in camel case, and the verdict names them in
  snake case (\<open>created_response_omits_verdict\<close> shows it for every run that answers 201).
\<close>

theorem successful_response_omits_verdict:
  "statusCode (snd (applyForJob (runtimeWith []) quietWorld candidateRequest)) = 201
   \<and> CalculateATSScore samParsed (description backendJob)
        \<in> set (fst (applyForJob (runtimeWith []) quietWorld candidateRequest))
   \<and> calculateATSScore (runtimeWith []) quietWorld samParsed (description backendJob) = Inr fullMatch
   \<and> get fullMatch ''match_score'' = num 100
   \<and> resultField (applyForJob (runtimeWith []) quietWorld candidateRequest) ''recommendation''
        = JStr ''Fallback scoring used - manual review recommended''
   \<and> resultField (applyForJob (runtimeWith []) quietWorld candidateRequest) ''matchScore'' = JUndefined
   \<and> resultField (applyForJob (runtimeWith []) quietWorld candidateRequest) ''shortlistProbability'' = JUndefined
   \<and> resultField (applyForJob (runtimeWith []) quietWorld candidateRequest) ''salaryRange'' = JUndefined
   \<and> resultField (applyForJob (runtimeWith []) quietWorld candidateRequest) ''missingSkills'' = JUndefined
   \<and> resultField (applyForJob (runtimeWith []) quietWorld candidateRequest) ''strongSkills'' = JUndefined
   \<and> resultField (applyForJob (runtimeWith []) quietWorld candidateRequest) ''keyHighlights'' = JUndefined
   \<and> resultField (applyForJob (runtimeWith []) quietWorld candidateRequest) ''areasOfConcern'' = JUndefined"
proof -
  have t: "truthy samPayload" by (simp add: samPayload_def)
  note run = sample_run [OF sample_worlds t sam_normalized sam_fallback quiet_notify]
  have r: "get fullMatch ''recommendation'' = JStr ''Fallback scoring used - manual review recommended''"
          "get fullMatch ''match_score'' = num 100"
    by (simp_all add: fullMatch_def)
  from run(1) run(5) run(6) run(4) r created_response_omits_verdict [OF run(1)]
  show ?thesis by simp
qed

text \<open>
  Claim C5 says that the deletion of the local file is attempted on every failed run,
  validation failures included. On the run of \<open>candidateRequest\<close> in
  \<open>jobMissingWorld\<close> the job does not exist: the controller answers 404 after the one
  read, and the file that the upload middleware stored at \<open>req.file.path\<close> is not
  deleted. The catch block does attempt the deletion (\<open>thrown_run_unlinks\<close>); the early
  returns of validation do not.
\<close>

theorem validation_failure_keeps_upload:
  "req_file candidateRequest = Some ''uploads/resume-1.pdf''
   \<and> applyForJob (runtimeWith []) jobMissingWorld candidateRequest
       = ([GetJobByJobId ''JOB-1''],
          \<lparr>statusCode = 404,
           body = JObj [(''success'', JBool False), (''error'', JStr ''Job not found'')]\<rparr>)"
  by (simp add: applyForJob_def attempt_def bindE_def call_def respond_def getJobByJobId_def
        single_def jobMissingWorld_def candidateRequest_def)

text \<open>
  Claim C7 says that a run in which a notification fails still answers 201, with
  \<open>emailSent: false\<close>. On the run of \<open>candidateRequest\<close> in \<open>unaddressedWorld\<close> the
  match score is 100 and the job has no HR address: \<open>sendHRNotification\<close> is called and
  returns \<open>{sent: false, reason}\<close>, so HR is not notified. The controller does not look
  at what the call returns: it answers 201 with \<open>emailSent: true\<close> and sets the flag of
  the stored score, the flag that records whether HR was notified.
\<close>

theorem unsent_alert_reported_sent:
  "hr_email unaddressedJob = []
   \<and> calculateATSScore (runtimeWith []) unaddressedWorld samParsed (description unaddressedJob)
       = Inr fullMatch
   \<and> get fullMatch ''match_score'' = num 100
   \<and> sendHRNotification unaddressedWorld unaddressedAlert
       = Inr (JObj [(''sent'', JBool False), (''reason'', JStr ''HR email not provided'')])
   \<and> statusCode (snd (applyForJob (runtimeWith []) unaddressedWorld candidateRequest)) = 201
   \<and> notifications (applyForJob (runtimeWith []) unaddressedWorld candidateRequest)
       = [SendHRNotification unaddressedAlert, SendCandidateConfirmation confirmation,
          UpdateEmailSentStatus (num 9) True]
   \<and> resultField (applyForJob (runtimeWith []) unaddressedWorld candidateRequest) ''emailSent''
       = JBool True"
proof -
  have reach: "reachesProcessing unaddressedWorld candidateRequest ''uploads/resume-1.pdf'' unaddressedJob"
    by (simp add: reachesProcessing_def unaddressedWorld_def unaddressedJob_def quietWorld_def
          candidateRequest_def backendJob_def single_def)
  have up: "cloudinary_upload unaddressedWorld
              = Inr [(''secure_url'', JStr ''https://cdn.example/r1.pdf'')]"
    by (simp add: unaddressedWorld_def quietWorld_def)
  have t: "truthy samPayload" by (simp add: samPayload_def)
  have parsed: "parseResume unaddressedWorld
                  (get (JObj [(''secure_url'', JStr ''https://cdn.example/r1.pdf'')]) ''secure_url'')
                = Inr samParsed"
    by (rule parseResume_configured [OF _ _ _ t sam_normalized])
       (simp_all add: unaddressedWorld_def quietWorld_def)
  have resume: "resumes_insert unaddressedWorld = Data [(''id'', num 7)]"
    by (simp add: unaddressedWorld_def quietWorld_def)
  have d: "description unaddressedJob = ''We use Python, SQL and AWS.''"
    by (simp add: unaddressedJob_def backendJob_def)
  have sr: "calculateATSScore (runtimeWith []) unaddressedWorld samParsed (description unaddressedJob)
              = Inr fullMatch"
    by (simp add: d fallback_when_unconfigured unaddressedWorld_def quietWorld_def sam_fallback)
  have score: "ats_scores_insert unaddressedWorld = Data [(''id'', num 9)]"
    by (simp add: unaddressedWorld_def quietWorld_def)
  have n: "notify (runtimeWith []) unaddressedWorld candidateRequest unaddressedJob fullMatch
      (get (JObj [(''secure_url'', JStr ''https://cdn.example/r1.pdf'')]) ''secure_url'')
      [(''id'', num 9)]
    = ([SendHRNotification unaddressedAlert, SendCandidateConfirmation confirmation,
        UpdateEmailSentStatus (num 9) True], True)"
    using unaddressed_notify by simp
  note run = run_success [OF reach up parsed resume sr score n]
  have h: "hr_email unaddressedJob = []" by (simp add: unaddressedJob_def)
  have m: "get fullMatch ''match_score'' = num 100" by (simp add: fullMatch_def)
  have s: "sendHRNotification unaddressedWorld unaddressedAlert
       = Inr (JObj [(''sent'', JBool False), (''reason'', JStr ''HR email not provided'')])"
    by (simp add: sendHRNotification_def unaddressedAlert_def)
  from h sr m s run(1) run(2) run(4) show ?thesis by simp
qed

text \<open>
  Claim C8 says that the alert to HR is sent only for a match score of at least 80, and
  that \<open>emailSent\<close> is true only then. The first half holds on every run
  (\<open>hr_notified_only_from_80\<close>). On the run of \<open>candidateRequest\<close> in
  \<open>unrelatedWorld\<close> the match score is 0: \<open>sendHRNotification\<close> is not called, the
  confirmation to the candidate is sent, and the controller answers with
  \<open>emailSent: true\<close> and sets the flag of the stored score.
\<close>

theorem low_score_reported_sent:
  "calculateATSScore (runtimeWith []) unrelatedWorld painterParsed (description backendJob) = Inr noMatch
   \<and> CalculateATSScore painterParsed (description backendJob)
        \<in> set (fst (applyForJob (runtimeWith []) unrelatedWorld candidateRequest))
   \<and> get noMatch ''match_score'' = num 0
   \<and> statusCode (snd (applyForJob (runtimeWith []) unrelatedWorld candidateRequest)) = 201
   \<and> notifications (applyForJob (runtimeWith []) unrelatedWorld candidateRequest)
       = [SendCandidateConfirmation confirmation, UpdateEmailSentStatus (num 9) True]
   \<and> resultField (applyForJob (runtimeWith []) unrelatedWorld candidateRequest) ''emailSent''
       = JBool True"
proof -
  have t: "truthy painterPayload" by (simp add: painterPayload_def)
  have w: "jobs_single unrelatedWorld = Data backendJob"
    "resumes_single unrelatedWorld = Failure ''PGRST116'' ''no rows''"
    "cloudinary_upload unrelatedWorld = Inr [(''secure_url'', JStr ''https://cdn.example/r1.pdf'')]"
    "PARSER_API_KEY unrelatedWorld = Some ''k''"
    "PARSER_ENDPOINT unrelatedWorld = Some ''https://parser.example/parse''"
    "axios_get unrelatedWorld = Inr painterPayload"
    "resumes_insert unrelatedWorld = Data [(''id'', num 7)]"
    "GEMINI_API_KEY unrelatedWorld = None"
    "LLM_API_KEY unrelatedWorld = None"
    "ats_scores_insert unrelatedWorld = Data [(''id'', num 9)]"
    by (simp_all add: unrelatedWorld_def quietWorld_def)
  note run = sample_run [OF w t painter_normalized painter_fallback unrelated_notify]
  have z: "get noMatch ''match_score'' = num 0" by (simp add: noMatch_def)
  from run(6) run(5) z run(1) run(2) run(3) show ?thesis by simp
qed

theorem hr_failure_suppresses_confirmation_witness:
  "SendHRNotification hrAlert \<in> set (fst (applyForJob (runtimeWith []) hrRelayDownWorld candidateRequest))
   \<and> sendHRNotification hrRelayDownWorld hrAlert = Inl (Error ''Email notification failed: smtp down'')
   \<and> statusCode (snd (applyForJob (runtimeWith []) hrRelayDownWorld candidateRequest)) = 201
   \<and> resultField (applyForJob (runtimeWith []) hrRelayDownWorld candidateRequest) ''emailSent'' = JBool False
   \<and> (\<forall>c. SendCandidateConfirmation c
            \<notin> set (fst (applyForJob (runtimeWith []) hrRelayDownWorld candidateRequest)))
   \<and> (\<forall>i b. UpdateEmailSentStatus i b
            \<notin> set (fst (applyForJob (runtimeWith []) hrRelayDownWorld candidateRequest)))
   \<and> notifications (applyForJob (runtimeWith []) hrRelayDownWorld candidateRequest)
       = [SendHRNotification hrAlert]
   \<and> ge (runtimeWith []) (get hrAlert ''matchScore'') 80
   \<and> (\<exists>scoreData. CreateATSScore scoreData
            \<in> set (fst (applyForJob (runtimeWith []) hrRelayDownWorld candidateRequest))
          \<and> get (JObj (scoreRow scoreData)) ''email_sent'' = JBool False)"
proof -
  have t: "truthy samPayload" by (simp add: samPayload_def)
  have w: "jobs_single hrRelayDownWorld = Data backendJob"
    "resumes_single hrRelayDownWorld = Failure ''PGRST116'' ''no rows''"
    "cloudinary_upload hrRelayDownWorld = Inr [(''secure_url'', JStr ''https://cdn.example/r1.pdf'')]"
    "PARSER_API_KEY hrRelayDownWorld = Some ''k''"
    "PARSER_ENDPOINT hrRelayDownWorld = Some ''https://parser.example/parse''"
    "axios_get hrRelayDownWorld = Inr samPayload"
    "resumes_insert hrRelayDownWorld = Data [(''id'', num 7)]"
    "GEMINI_API_KEY hrRelayDownWorld = None"
    "LLM_API_KEY hrRelayDownWorld = None"
    "ats_scores_insert hrRelayDownWorld = Data [(''id'', num 9)]"
    by (simp_all add: hrRelayDownWorld_def quietWorld_def)
  note run = sample_run [OF w t sam_normalized sam_fallback hrRelayDown_notify]
  have "SendHRNotification hrAlert
          \<in> set (notifications (applyForJob (runtimeWith []) hrRelayDownWorld candidateRequest))"
    using run(2) by simp
  then have called: "SendHRNotification hrAlert
          \<in> set (fst (applyForJob (runtimeWith []) hrRelayDownWorld candidateRequest))"
    by (simp add: notifications_def)
  have throws: "sendHRNotification hrRelayDownWorld hrAlert = Inl (Error ''Email notification failed: smtp down'')"
    by (simp add: sendHRNotification_def hrRelayDownWorld_def hrAlert_def)
  from hr_failure_suppresses_confirmation [OF called throws] called throws
  show ?thesis by simp
qed

end
